theory Spec2Isabelle
  imports Main
begin

section \<open>The local (in-process) transport: data model\<close>

text \<open>
  The development embeds three classes of the repository:
  \<^item> \<open>LocalTransportRegistry\<close> (shared/local.ts): the routing table and its \<open>send\<close>;
  \<^item> \<open>LocalServerTransport\<close> (server/local.ts);
  \<^item> \<open>LocalClientTransport\<close> (client/local.ts).

  Objects live in two stores indexed by references (object identities); every method
  takes the reference of \<open>this\<close> and the world, and returns the world it leaves behind.
  A method that throws returns \<open>Inl\<close> of the error \<^emph>\<open>together with\<close> the world at
  the moment of the throw, because a JavaScript exception does not undo the
  assignments made before it.

  The observers \<open>onmessage\<close>, \<open>onclose\<close>, \<open>onerror\<close> are functions supplied by the owning
  collaborator. They are opaque here: an observer is an identity together with what
  a call of it does, return or throw, and calling it appends an event to the trace
  of the world. \<open>close()\<close> calls the close observer as its last statement and does not
  catch, so what that observer throws leaves \<open>close()\<close>, after the assignments made
  before the call. The on-message observer is called inside a timer, where no caller
  of the transport is on the stack: the call is recorded and what it throws reaches
  none of the operations. Observers are taken not to call back into the transport.
\<close>

type_synonym ref = nat

datatype observer = Returns nat | Throws nat

fun throws :: "observer \<Rightarrow> bool" where
  "throws (Returns k) = False"
| "throws (Throws k) = True"

text \<open>
  The \<open>Error\<close> values thrown by the three classes, one constructor per message, and
  whatever a close observer throws.
\<close>

datatype error =
    ServerAlreadyStarted           \<comment> \<open>"LocalServerTransport already started! ..."\<close>
  | ClientAlreadyStarted           \<comment> \<open>"LocalClientTransport already started! ..."\<close>
  | NotConnected                   \<comment> \<open>"Not connected"\<close>
  | NoClientConnected              \<comment> \<open>"No client connected"\<close>
  | NoServerTransportProvided      \<comment> \<open>"No server transport provided"\<close>
  | NoServerTransportConnected     \<comment> \<open>"No server transport connected"\<close>
  | TransportNotFound string       \<comment> \<open>"Transport with ID ... not found"\<close>
  | ObserverError observer         \<comment> \<open>thrown by the observer, not by the transport\<close>

text \<open>
  The two closures handed to \<open>register\<close> by the constructors, both
  \<^verbatim>\<open>(message) => { this.onmessage?.(message); }\<close>, with \<open>this\<close> the server or the client.
\<close>

datatype callback = ServerOnMessage ref | ClientOnMessage ref

text \<open>The registered object \<^verbatim>\<open>{ onmessage?: (message) => void }\<close>.\<close>

record callbacks =
  cb_onmessage :: "callback option"

record server =
  s_connected :: bool                 \<comment> \<open>\<open>_connected\<close>\<close>
  s_sessionId :: string               \<comment> \<open>\<open>sessionId\<close> (readonly)\<close>
  s_clientId :: "string option"       \<comment> \<open>\<open>_clientId\<close>\<close>
  s_onclose :: "observer option"
  s_onerror :: "observer option"
  s_onmessage :: "observer option"

record client =
  c_connected :: bool                 \<comment> \<open>\<open>_connected\<close>\<close>
  c_sessionId :: string               \<comment> \<open>\<open>sessionId\<close> (readonly)\<close>
  c_serverTransport :: "ref option"   \<comment> \<open>\<open>_serverTransport\<close>\<close>
  c_onclose :: "observer option"
  c_onerror :: "observer option"
  c_onmessage :: "observer option"

datatype endpoint = ServerEnd ref | ClientEnd ref

text \<open>What the observers see: which observer of which endpoint was called, and with what.\<close>

datatype 'm event =
    OnMessage endpoint observer 'm
  | OnClose endpoint observer

text \<open>
  The world: the singleton registry's \<open>transportMap\<close>, the runtime's queue of
  zero-delay timers (each holds the \<open>target\<close> object and the \<open>message\<close> its closure
  captured), the two object stores with their allocation counters, and the trace.
\<close>

record 'm world =
  transportMap :: "string \<rightharpoonup> callbacks"
  timers :: "(callbacks \<times> 'm) list"
  servers :: "ref \<Rightarrow> server"
  clients :: "ref \<Rightarrow> client"
  next_server :: ref
  next_client :: ref
  trace :: "'m event list"

definition blank_server :: server where
  "blank_server = \<lparr>s_connected = False, s_sessionId = [], s_clientId = None,
     s_onclose = None, s_onerror = None, s_onmessage = None\<rparr>"

definition blank_client :: client where
  "blank_client = \<lparr>c_connected = False, c_sessionId = [], c_serverTransport = None,
     c_onclose = None, c_onerror = None, c_onmessage = None\<rparr>"

definition init_world :: "'m world" where
  "init_world = \<lparr>transportMap = Map.empty, timers = [],
     servers = (\<lambda>_. blank_server), clients = (\<lambda>_. blank_client),
     next_server = 0, next_client = 0, trace = []\<rparr>"

section \<open>The runtime: zero-delay timers\<close>

text \<open>
  \<^verbatim>\<open>setTimeout(f, 0)\<close> appends a task to the timer queue; the runtime runs the tasks of
  equal delay in the order they were scheduled, one per turn.
\<close>

definition setTimeout :: "callbacks \<times> 'm \<Rightarrow> 'm world \<Rightarrow> 'm world" where
  "setTimeout task w = w\<lparr>timers := timers w @ [task]\<rparr>"

text \<open>Calling a registered closure: \<^verbatim>\<open>this.onmessage?.(message)\<close>.\<close>

fun invoke :: "callback \<Rightarrow> 'm \<Rightarrow> 'm world \<Rightarrow> 'm world" where
  "invoke (ServerOnMessage this) message w =
     (case s_onmessage (servers w this) of
        None \<Rightarrow> w
      | Some f \<Rightarrow> w\<lparr>trace := trace w @ [OnMessage (ServerEnd this) f message]\<rparr>)"
| "invoke (ClientOnMessage this) message w =
     (case c_onmessage (clients w this) of
        None \<Rightarrow> w
      | Some f \<Rightarrow> w\<lparr>trace := trace w @ [OnMessage (ClientEnd this) f message]\<rparr>)"

text \<open>The body of the timer of \<open>send\<close>: \<^verbatim>\<open>target.onmessage?.(message)\<close>.\<close>

definition run_task :: "callbacks \<times> 'm \<Rightarrow> 'm world \<Rightarrow> 'm world" where
  "run_task task w =
     (case cb_onmessage (fst task) of
        None \<Rightarrow> w
      | Some h \<Rightarrow> invoke h (snd task) w)"

text \<open>One turn of the scheduler: the oldest timer, if any, is taken off the queue and run.\<close>

definition run_next :: "'m world \<Rightarrow> 'm world" where
  "run_next w =
     (case timers w of
        [] \<Rightarrow> w
      | task # rest \<Rightarrow> run_task task (w\<lparr>timers := rest\<rparr>))"

fun run_turns :: "nat \<Rightarrow> 'm world \<Rightarrow> 'm world" where
  "run_turns 0 w = w"
| "run_turns (Suc n) w = run_turns n (run_next w)"

text \<open>Running the scheduler until every timer pending now has fired.\<close>

definition drain :: "'m world \<Rightarrow> 'm world" where
  "drain w = run_turns (length (timers w)) w"

section \<open>LocalTransportRegistry\<close>

definition register :: "string \<Rightarrow> callbacks \<Rightarrow> 'm world \<Rightarrow> 'm world" where
  "register ident cbs w = w\<lparr>transportMap := (transportMap w)(ident \<mapsto> cbs)\<rparr>"

definition unregister :: "string \<Rightarrow> 'm world \<Rightarrow> 'm world" where
  "unregister ident w = w\<lparr>transportMap := (transportMap w)(ident := None)\<rparr>"

definition registry_send :: "string \<Rightarrow> 'm \<Rightarrow> 'm world \<Rightarrow> (error + unit) \<times> 'm world" where
  "registry_send targetId message w =
     (case transportMap w targetId of
        None \<Rightarrow> (Inl (TransportNotFound targetId), w)
      | Some target \<Rightarrow> (Inr (), setTimeout (target, message) w))"

section \<open>LocalServerTransport\<close>

text \<open>
  The constructor. \<open>uuid\<close> is the string \<open>generateUUID()\<close> would return; the session
  identifier is \<^verbatim>\<open>id || generateUUID()\<close>, so an absent or empty \<open>id\<close> gives the UUID.
\<close>

definition new_LocalServerTransport ::
  "string option \<Rightarrow> string \<Rightarrow> 'm world \<Rightarrow> ref \<times> 'm world" where
  "new_LocalServerTransport ident uuid w =
     (let this = next_server w;
          sessionId = (case ident of None \<Rightarrow> uuid | Some s \<Rightarrow> if s = [] then uuid else s);
          w1 = w\<lparr>servers := (servers w)(this :=
                   \<lparr>s_connected = False, s_sessionId = sessionId, s_clientId = None,
                    s_onclose = None, s_onerror = None, s_onmessage = None\<rparr>),
                 next_server := Suc this\<rparr>
      in (this, register sessionId \<lparr>cb_onmessage = Some (ServerOnMessage this)\<rparr> w1))"

definition server_start :: "ref \<Rightarrow> 'm world \<Rightarrow> (error + unit) \<times> 'm world" where
  "server_start this w =
     (if s_connected (servers w this) then (Inl ServerAlreadyStarted, w)
      else (Inr (), w\<lparr>servers := (servers w)(this := (servers w this)\<lparr>s_connected := True\<rparr>)\<rparr>))"

text \<open>
  The test \<^verbatim>\<open>!this._clientId\<close> holds when no identifier was ever recorded and also
  when the recorded one is the empty string.
\<close>

definition server_send :: "ref \<Rightarrow> 'm \<Rightarrow> 'm world \<Rightarrow> (error + unit) \<times> 'm world" where
  "server_send this message w =
     (if \<not> s_connected (servers w this) then (Inl NotConnected, w)
      else (case s_clientId (servers w this) of
              None \<Rightarrow> (Inl NoClientConnected, w)
            | Some clientId \<Rightarrow>
                if clientId = [] then (Inl NoClientConnected, w)
                else registry_send clientId message w))"

text \<open>
  \<^verbatim>\<open>this.onclose?.()\<close>: nothing without an observer; otherwise the observer is called,
  and the statement returns or throws as the observer does.
\<close>

definition server_fire_onclose :: "ref \<Rightarrow> 'm world \<Rightarrow> (error + unit) \<times> 'm world" where
  "server_fire_onclose this w =
     (case s_onclose (servers w this) of
        None \<Rightarrow> (Inr (), w)
      | Some f \<Rightarrow>
          (if throws f then Inl (ObserverError f) else Inr (),
           w\<lparr>trace := trace w @ [OnClose (ServerEnd this) f]\<rparr>))"

definition server_close :: "ref \<Rightarrow> 'm world \<Rightarrow> (error + unit) \<times> 'm world" where
  "server_close this w =
     (if s_connected (servers w this) then
        (let w1 = unregister (s_sessionId (servers w this)) w;
             w2 = w1\<lparr>servers := (servers w1)(this := (servers w1 this)\<lparr>s_connected := False\<rparr>)\<rparr>
         in server_fire_onclose this w2)
      else (Inr (), w))"

definition server_setClientId :: "ref \<Rightarrow> string \<Rightarrow> 'm world \<Rightarrow> 'm world" where
  "server_setClientId this clientId w =
     w\<lparr>servers := (servers w)(this := (servers w this)\<lparr>s_clientId := Some clientId\<rparr>)\<rparr>"

section \<open>LocalClientTransport\<close>

text \<open>
  The constructor. The field \<open>_serverTransport\<close> is optional and \<open>start\<close> and \<open>send\<close>
  guard against its absence, so the handle is an option here too.
\<close>

definition new_LocalClientTransport ::
  "ref option \<Rightarrow> string \<Rightarrow> 'm world \<Rightarrow> ref \<times> 'm world" where
  "new_LocalClientTransport serverTransport uuid w =
     (let this = next_client w;
          w1 = w\<lparr>clients := (clients w)(this :=
                   \<lparr>c_connected = False, c_sessionId = uuid, c_serverTransport = serverTransport,
                    c_onclose = None, c_onerror = None, c_onmessage = None\<rparr>),
                 next_client := Suc this\<rparr>
      in (this, register uuid \<lparr>cb_onmessage = Some (ClientOnMessage this)\<rparr> w1))"

definition client_start :: "ref \<Rightarrow> 'm world \<Rightarrow> (error + unit) \<times> 'm world" where
  "client_start this w =
     (if c_connected (clients w this) then (Inl ClientAlreadyStarted, w)
      else (case c_serverTransport (clients w this) of
              None \<Rightarrow> (Inl NoServerTransportProvided, w)
            | Some srv \<Rightarrow>
                (let w1 = server_setClientId srv (c_sessionId (clients w this)) w
                 in (Inr (), w1\<lparr>clients := (clients w1)(this := (clients w1 this)\<lparr>c_connected := True\<rparr>)\<rparr>))))"

definition client_send :: "ref \<Rightarrow> 'm \<Rightarrow> 'm world \<Rightarrow> (error + unit) \<times> 'm world" where
  "client_send this message w =
     (if \<not> c_connected (clients w this) then (Inl NotConnected, w)
      else (case c_serverTransport (clients w this) of
              None \<Rightarrow> (Inl NoServerTransportConnected, w)
            | Some srv \<Rightarrow> registry_send (s_sessionId (servers w srv)) message w))"

definition client_fire_onclose :: "ref \<Rightarrow> 'm world \<Rightarrow> (error + unit) \<times> 'm world" where
  "client_fire_onclose this w =
     (case c_onclose (clients w this) of
        None \<Rightarrow> (Inr (), w)
      | Some f \<Rightarrow>
          (if throws f then Inl (ObserverError f) else Inr (),
           w\<lparr>trace := trace w @ [OnClose (ClientEnd this) f]\<rparr>))"

definition client_close :: "ref \<Rightarrow> 'm world \<Rightarrow> (error + unit) \<times> 'm world" where
  "client_close this w =
     (if c_connected (clients w this) then
        (let w1 = unregister (c_sessionId (clients w this)) w;
             w2 = w1\<lparr>clients := (clients w1)(this := (clients w1 this)\<lparr>c_connected := False\<rparr>)\<rparr>
         in client_fire_onclose this w2)
      else (Inr (), w))"

section \<open>The owner attaching observers\<close>

text \<open>The assignments \<^verbatim>\<open>transport.onmessage = f\<close> and \<^verbatim>\<open>transport.onclose = f\<close>.\<close>

definition server_set_onmessage :: "ref \<Rightarrow> observer \<Rightarrow> 'm world \<Rightarrow> 'm world" where
  "server_set_onmessage this f w =
     w\<lparr>servers := (servers w)(this := (servers w this)\<lparr>s_onmessage := Some f\<rparr>)\<rparr>"

definition server_set_onclose :: "ref \<Rightarrow> observer \<Rightarrow> 'm world \<Rightarrow> 'm world" where
  "server_set_onclose this f w =
     w\<lparr>servers := (servers w)(this := (servers w this)\<lparr>s_onclose := Some f\<rparr>)\<rparr>"

definition client_set_onmessage :: "ref \<Rightarrow> observer \<Rightarrow> 'm world \<Rightarrow> 'm world" where
  "client_set_onmessage this f w =
     w\<lparr>clients := (clients w)(this := (clients w this)\<lparr>c_onmessage := Some f\<rparr>)\<rparr>"

definition client_set_onclose :: "ref \<Rightarrow> observer \<Rightarrow> 'm world \<Rightarrow> 'm world" where
  "client_set_onclose this f w =
     w\<lparr>clients := (clients w)(this := (clients w this)\<lparr>c_onclose := Some f\<rparr>)\<rparr>"

section \<open>Sequences of calls\<close>

text \<open>Calling \<open>close()\<close> \<open>n\<close> times in a row: the results of the calls and the last world.\<close>

fun server_closes :: "nat \<Rightarrow> ref \<Rightarrow> 'm world \<Rightarrow> (error + unit) list \<times> 'm world" where
  "server_closes 0 this w = ([], w)"
| "server_closes (Suc n) this w =
     (let (r, w1) = server_close this w; (rs, w2) = server_closes n this w1 in (r # rs, w2))"

fun client_closes :: "nat \<Rightarrow> ref \<Rightarrow> 'm world \<Rightarrow> (error + unit) list \<times> 'm world" where
  "client_closes 0 this w = ([], w)"
| "client_closes (Suc n) this w =
     (let (r, w1) = client_close this w; (rs, w2) = client_closes n this w1 in (r # rs, w2))"

text \<open>
  Dispatching a list of messages through the registry, each to its own target, one
  call after the other; a call that throws is caught by the caller and the next one
  is made.
\<close>

fun registry_send_seq :: "(string \<times> 'm) list \<Rightarrow> 'm world \<Rightarrow> (error + unit) list \<times> 'm world" where
  "registry_send_seq [] w = ([], w)"
| "registry_send_seq ((targetId, message) # rest) w =
     (let (r, w1) = registry_send targetId message w;
          (rs, w2) = registry_send_seq rest w1
      in (r # rs, w2))"

fun server_send_seq :: "ref \<Rightarrow> 'm list \<Rightarrow> 'm world \<Rightarrow> (error + unit) list \<times> 'm world" where
  "server_send_seq this [] w = ([], w)"
| "server_send_seq this (message # rest) w =
     (let (r, w1) = server_send this message w;
          (rs, w2) = server_send_seq this rest w1
      in (r # rs, w2))"

text \<open>
  The operations an owner can perform on the endpoints, and a turn of the scheduler.
  \<open>step\<close> keeps the world an operation leaves behind, whether it returned or threw.
\<close>

datatype 'm op =
    NewServer "string option" string
  | NewClient "ref option" string
  | ServerStart ref
  | ServerSend ref 'm
  | ServerClose ref
  | ClientStart ref
  | ClientSend ref 'm
  | ClientClose ref
  | ServerSetOnMessage ref observer
  | ServerSetOnClose ref observer
  | ClientSetOnMessage ref observer
  | ClientSetOnClose ref observer
  | Turn

fun step :: "'m op \<Rightarrow> 'm world \<Rightarrow> 'm world" where
  "step (NewServer ident uuid) w = snd (new_LocalServerTransport ident uuid w)"
| "step (NewClient srv uuid) w = snd (new_LocalClientTransport srv uuid w)"
| "step (ServerStart s) w = snd (server_start s w)"
| "step (ServerSend s m) w = snd (server_send s m w)"
| "step (ServerClose s) w = snd (server_close s w)"
| "step (ClientStart c) w = snd (client_start c w)"
| "step (ClientSend c m) w = snd (client_send c m w)"
| "step (ClientClose c) w = snd (client_close c w)"
| "step (ServerSetOnMessage s f) w = server_set_onmessage s f w"
| "step (ServerSetOnClose s f) w = server_set_onclose s f w"
| "step (ClientSetOnMessage c f) w = client_set_onmessage c f w"
| "step (ClientSetOnClose c f) w = client_set_onclose c f w"
| "step Turn w = run_next w"

fun steps :: "'m op list \<Rightarrow> 'm world \<Rightarrow> 'm world" where
  "steps [] w = w"
| "steps (a # ops) w = steps ops (step a w)"

section \<open>Observations\<close>

text \<open>The messages an endpoint's on-message observer was called with, oldest first.\<close>

fun received :: "endpoint \<Rightarrow> 'm event list \<Rightarrow> 'm list" where
  "received e [] = []"
| "received e (OnMessage e' f m # es) = (if e' = e then m # received e es else received e es)"
| "received e (OnClose e' f # es) = received e es"

text \<open>The endpoint whose closure a registered object carries.\<close>

definition addressee :: "callbacks \<Rightarrow> endpoint option" where
  "addressee target =
     (case cb_onmessage target of
        None \<Rightarrow> None
      | Some (ServerOnMessage this) \<Rightarrow> Some (ServerEnd this)
      | Some (ClientOnMessage this) \<Rightarrow> Some (ClientEnd this))"

text \<open>The endpoint has an on-message observer.\<close>

fun attached :: "'m world \<Rightarrow> endpoint \<Rightarrow> bool" where
  "attached w (ServerEnd this) = (s_onmessage (servers w this) \<noteq> None)"
| "attached w (ClientEnd this) = (c_onmessage (clients w this) \<noteq> None)"

text \<open>The timers a list of dispatches adds: one for each target found in the table.\<close>

definition resolve :: "'m world \<Rightarrow> (string \<times> 'm) list \<Rightarrow> (callbacks \<times> 'm) list" where
  "resolve w sends =
     List.map_filter
       (\<lambda>(targetId, m). map_option (\<lambda>target. (target, m)) (transportMap w targetId)) sends"

text \<open>
  Every dispatch of \<open>sends\<close> either goes to \<open>targetId\<close> or to an identifier that is not
  in the table or whose registered object does not carry the closure of \<open>e\<close>.
\<close>

definition only_route :: "'m world \<Rightarrow> endpoint \<Rightarrow> string \<Rightarrow> (string \<times> 'm) list \<Rightarrow> bool" where
  "only_route w e targetId sends =
     list_all
       (\<lambda>p. fst p = targetId \<or>
            (case transportMap w (fst p) of
               None \<Rightarrow> True
             | Some t \<Rightarrow> addressee t \<noteq> Some e))
       sends"

text \<open>
  \<open>closes_id i a w\<close>: in world \<open>w\<close> the operation \<open>a\<close> is a \<open>close()\<close> that reaches
  \<open>unregister(i)\<close>. \<open>spares i ops w\<close>: no operation of \<open>ops\<close>, run from \<open>w\<close>, does so.
  \<open>mints i a\<close>: \<open>a\<close> constructs an endpoint whose session identifier is \<open>i\<close>.
\<close>

fun closes_id :: "string \<Rightarrow> 'm op \<Rightarrow> 'm world \<Rightarrow> bool" where
  "closes_id i (ServerClose s) w = (s_connected (servers w s) \<and> s_sessionId (servers w s) = i)"
| "closes_id i (ClientClose c) w = (c_connected (clients w c) \<and> c_sessionId (clients w c) = i)"
| "closes_id i _ w = False"

fun spares :: "string \<Rightarrow> 'm op list \<Rightarrow> 'm world \<Rightarrow> bool" where
  "spares i [] w = True"
| "spares i (a # ops) w = (\<not> closes_id i a w \<and> spares i ops (step a w))"

fun mints :: "string \<Rightarrow> 'm op \<Rightarrow> bool" where
  "mints i (NewServer ident uuid) =
     ((case ident of None \<Rightarrow> uuid | Some s \<Rightarrow> if s = [] then uuid else s) = i)"
| "mints i (NewClient srv uuid) = (uuid = i)"
| "mints i _ = False"

section \<open>Concrete worlds\<close>

text \<open>
  A server (object 0, identifier \<open>srv-uuid\<close>) with its observers attached; the same
  with a client (object 0, identifier \<open>cli-uuid\<close>) constructed on it; the pair after
  both \<open>start()\<close> calls; the server started with a second client (object 1,
  identifier \<open>cli2-uuid\<close>) constructed on it; and the started pair with close observers
  that throw. The observers of the other worlds return.
\<close>

definition lone_server :: "string world" where
  "lone_server = server_set_onclose 0 (Returns 1) (server_set_onmessage 0 (Returns 0)
     (snd (new_LocalServerTransport None ''srv-uuid'' init_world)))"

definition wired_pair :: "string world" where
  "wired_pair = client_set_onclose 0 (Returns 3) (client_set_onmessage 0 (Returns 2)
     (snd (new_LocalClientTransport (Some 0) ''cli-uuid'' lone_server)))"

definition started_pair :: "string world" where
  "started_pair = snd (client_start 0 (snd (server_start 0 wired_pair)))"

definition wired_trio :: "string world" where
  "wired_trio = snd (server_start 0 (client_set_onmessage 1 (Returns 4)
     (snd (new_LocalClientTransport (Some 0) ''cli2-uuid'' wired_pair))))"

definition brittle_pair :: "string world" where
  "brittle_pair = client_set_onclose 0 (Throws 7) (server_set_onclose 0 (Throws 6) started_pair)"

lemmas scenario_defs = lone_server_def wired_pair_def started_pair_def wired_trio_def
  brittle_pair_def
  init_world_def blank_server_def blank_client_def
  new_LocalServerTransport_def new_LocalClientTransport_def
  register_def unregister_def server_set_onmessage_def server_set_onclose_def
  client_set_onmessage_def client_set_onclose_def server_start_def client_start_def
  server_setClientId_def server_close_def client_close_def server_fire_onclose_def
  client_fire_onclose_def server_send_def client_send_def registry_send_def setTimeout_def
  Let_def

section \<open>Basic facts\<close>

subsection \<open>close\<close>

lemma server_close_idle: "\<not> s_connected (servers w s) \<Longrightarrow> server_close s w = (Inr (), w)"
  by (simp add: server_close_def)

lemma client_close_idle: "\<not> c_connected (clients w c) \<Longrightarrow> client_close c w = (Inr (), w)"
  by (simp add: client_close_def)

lemma server_close_disconnects: "\<not> s_connected (servers (snd (server_close s w)) s)"
  by (simp add: server_close_def server_fire_onclose_def unregister_def Let_def
      split: option.splits)

lemma client_close_disconnects: "\<not> c_connected (clients (snd (client_close c w)) c)"
  by (simp add: client_close_def client_fire_onclose_def unregister_def Let_def
      split: option.splits)

lemma server_closes_idle:
  "\<not> s_connected (servers w s) \<Longrightarrow> server_closes n s w = (replicate n (Inr ()), w)"
  by (induction n) (simp_all add: server_close_idle)

lemma client_closes_idle:
  "\<not> c_connected (clients w c) \<Longrightarrow> client_closes n c w = (replicate n (Inr ()), w)"
  by (induction n) (simp_all add: client_close_idle)

subsection \<open>The scheduler\<close>

lemma received_append: "received e (xs @ ys) = received e xs @ received e ys"
  by (induction e xs rule: received.induct) simp_all

lemma invoke_timers_upd: "invoke h m (w\<lparr>timers := q\<rparr>) = (invoke h m w)\<lparr>timers := q\<rparr>"
  by (cases h) (simp_all split: option.splits)

lemma run_task_timers_upd: "run_task t (w\<lparr>timers := q\<rparr>) = (run_task t w)\<lparr>timers := q\<rparr>"
  by (simp add: run_task_def invoke_timers_upd split: option.splits)

text \<open>Draining runs the pending timers in queue order.\<close>

lemma run_turns_foldl:
  "run_turns (length q) (w\<lparr>timers := q @ r\<rparr>) = foldl (\<lambda>w t. run_task t w) (w\<lparr>timers := r\<rparr>) q"
proof (induction q arbitrary: w)
  case Nil
  show ?case by simp
next
  case (Cons a q)
  have "run_turns (length (a # q)) (w\<lparr>timers := (a # q) @ r\<rparr>)
      = run_turns (length q) ((run_task a w)\<lparr>timers := q @ r\<rparr>)"
    by (simp add: run_next_def run_task_timers_upd)
  also have "\<dots> = foldl (\<lambda>w t. run_task t w) ((run_task a w)\<lparr>timers := r\<rparr>) q"
    by (rule Cons.IH)
  also have "\<dots> = foldl (\<lambda>w t. run_task t w) (w\<lparr>timers := r\<rparr>) (a # q)"
    by (simp add: run_task_timers_upd)
  finally show ?case .
qed

lemma drain_foldl: "drain w = foldl (\<lambda>w t. run_task t w) (w\<lparr>timers := []\<rparr>) (timers w)"
  using run_turns_foldl [where q = "timers w" and w = w and r = "[]"] by (simp add: drain_def)

lemma drain_append:
  "drain (w\<lparr>timers := timers w @ q\<rparr>) = foldl (\<lambda>w t. run_task t w) (drain w) q"
  by (simp add: drain_foldl)

lemma drain_setTimeout: "drain (setTimeout t w) = run_task t (drain w)"
  by (simp add: setTimeout_def drain_append)

lemma invoke_stores: "servers (invoke h m w) = servers w" "clients (invoke h m w) = clients w"
  "transportMap (invoke h m w) = transportMap w" "timers (invoke h m w) = timers w"
  by (cases h; simp split: option.splits)+

lemma run_task_stores: "servers (run_task t w) = servers w" "clients (run_task t w) = clients w"
  "transportMap (run_task t w) = transportMap w" "timers (run_task t w) = timers w"
  by (simp_all add: run_task_def invoke_stores split: option.splits)

lemma run_next_stores: "transportMap (run_next w) = transportMap w"
  "servers (run_next w) = servers w" "clients (run_next w) = clients w"
  by (simp_all add: run_next_def run_task_stores split: list.splits)

lemma run_tasks_stores:
  "servers (foldl (\<lambda>w t. run_task t w) v q) = servers v \<and>
   clients (foldl (\<lambda>w t. run_task t w) v q) = clients v \<and>
   transportMap (foldl (\<lambda>w t. run_task t w) v q) = transportMap v"
  by (induction q arbitrary: v) (simp_all add: run_task_stores)

lemma drain_stores: "servers (drain w) = servers w" "clients (drain w) = clients w"
  "transportMap (drain w) = transportMap w"
  by (simp_all add: drain_foldl run_tasks_stores)

lemma attached_run_task: "attached (run_task t w) e = attached w e"
  by (cases e) (simp_all add: run_task_stores)

lemma attached_drain: "attached (drain w) e = attached w e"
  by (cases e) (simp_all add: drain_stores)

subsection \<open>What a run of timers delivers to one endpoint\<close>

lemma run_task_received:
  "attached w e \<Longrightarrow>
   received e (trace (run_task t w))
     = received e (trace w) @ (if addressee (fst t) = Some e then [snd t] else [])"
  by (cases e; cases "cb_onmessage (fst t)"; cases "the (cb_onmessage (fst t))")
     (auto simp add: run_task_def addressee_def received_append split: option.splits)

lemma run_tasks_received:
  "attached w e \<Longrightarrow>
   received e (trace (foldl (\<lambda>w t. run_task t w) w q))
     = received e (trace w) @ map snd (filter (\<lambda>t. addressee (fst t) = Some e) q)"
proof (induction q arbitrary: w)
  case Nil
  show ?case by simp
next
  case (Cons t q)
  have "attached (run_task t w) e" using Cons.prems by (simp add: attached_run_task)
  from Cons.IH [OF this] Cons.prems show ?case
    by (simp add: run_task_received)
qed

lemma run_task_not_addressed:
  "addressee (fst t) \<noteq> Some e \<Longrightarrow> received e (trace (run_task t w)) = received e (trace w)"
  by (cases e; cases "cb_onmessage (fst t)"; cases "the (cb_onmessage (fst t))")
     (auto simp add: run_task_def addressee_def received_append split: option.splits)

lemma run_tasks_not_addressed:
  "\<forall>t \<in> set q. addressee (fst t) \<noteq> Some e \<Longrightarrow>
   received e (trace (foldl (\<lambda>w t. run_task t w) w q)) = received e (trace w)"
  by (induction q arbitrary: w) (simp_all add: run_task_not_addressed)

lemma burst_received_self:
  assumes "addressee t = Some e" and "attached w e"
  shows "received e (trace (drain (w\<lparr>timers := timers w @ map (Pair t) ms\<rparr>)))
           = received e (trace (drain w)) @ ms"
proof -
  have att: "attached (drain w) e" using assms(2) by (simp add: attached_drain)
  have "map snd (filter (\<lambda>p. addressee (fst p) = Some e) (map (Pair t) ms)) = ms"
    using assms(1) by (induction ms) simp_all
  then show ?thesis
    by (simp add: drain_append run_tasks_received [OF att])
qed

lemma burst_received_other:
  assumes "addressee t \<noteq> Some e"
  shows "received e (trace (drain (w\<lparr>timers := timers w @ map (Pair t) ms\<rparr>)))
           = received e (trace (drain w))"
proof -
  have "\<forall>p \<in> set (map (Pair t) ms). addressee (fst p) \<noteq> Some e"
    using assms by simp
  then show ?thesis
    by (simp add: drain_append run_tasks_not_addressed)
qed

subsection \<open>The registry\<close>

lemma registry_send_hit:
  "transportMap w i = Some t \<Longrightarrow> registry_send i m w = (Inr (), w\<lparr>timers := timers w @ [(t, m)]\<rparr>)"
  by (simp add: registry_send_def setTimeout_def)

lemma registry_send_miss:
  "transportMap w i = None \<Longrightarrow> registry_send i m w = (Inl (TransportNotFound i), w)"
  by (simp add: registry_send_def)

lemma registry_send_stores:
  "servers (snd (registry_send i m w)) = servers w"
  "clients (snd (registry_send i m w)) = clients w"
  "transportMap (snd (registry_send i m w)) = transportMap w"
  by (simp_all add: registry_send_def setTimeout_def split: option.splits)

lemma unregister_setTimeout: "unregister i (setTimeout t w) = setTimeout t (unregister i w)"
  by (simp add: unregister_def setTimeout_def)

lemma registry_send_burst:
  "transportMap w i = Some t \<Longrightarrow>
   registry_send_seq (map (Pair i) ms) w
     = (replicate (length ms) (Inr ()), w\<lparr>timers := timers w @ map (Pair t) ms\<rparr>)"
proof (induction ms arbitrary: w)
  case Nil
  show ?case by simp
next
  case (Cons m ms)
  let ?w1 = "w\<lparr>timers := timers w @ [(t, m)]\<rparr>"
  have "transportMap ?w1 i = Some t" using Cons.prems by simp
  from Cons.IH [OF this] Cons.prems show ?case
    by (simp add: registry_send_hit)
qed

lemma registry_send_seq_timers:
  "snd (registry_send_seq sends w) = w\<lparr>timers := timers w @ resolve w sends\<rparr>"
proof (induction sends arbitrary: w)
  case Nil
  show ?case by (simp add: resolve_def List.map_filter_simps)
next
  case (Cons a sends)
  obtain i m where a: "a = (i, m)" by (cases a)
  show ?case
  proof (cases "transportMap w i")
    case None
    with Cons.IH [of w] a show ?thesis
      by (simp add: registry_send_miss resolve_def List.map_filter_simps split_beta)
  next
    case (Some t)
    let ?w1 = "w\<lparr>timers := timers w @ [(t, m)]\<rparr>"
    have "resolve ?w1 sends = resolve w sends" by (simp add: resolve_def)
    with Cons.IH [of ?w1] a Some show ?thesis
      by (simp add: registry_send_hit resolve_def List.map_filter_simps split_beta)
  qed
qed

lemma resolve_single_target:
  assumes "transportMap w targetId = Some target"
    and "addressee target = Some e"
  shows "only_route w e targetId sends \<Longrightarrow>
         map snd (filter (\<lambda>p. addressee (fst p) = Some e) (resolve w sends))
           = map snd (filter (\<lambda>p. fst p = targetId) sends)"
proof (induction sends)
  case Nil
  show ?case by (simp add: resolve_def List.map_filter_simps)
next
  case (Cons a sends)
  obtain i m where a: "a = (i, m)" by (cases a)
  from Cons.prems a
  have here: "i = targetId \<or> (case transportMap w i of None \<Rightarrow> True | Some t \<Rightarrow> addressee t \<noteq> Some e)"
    and rest: "only_route w e targetId sends"
    by (simp_all add: only_route_def)
  note ih = Cons.IH [OF rest]
  show ?case
  proof (cases "transportMap w i")
    case None
    then have "i \<noteq> targetId" using assms(1) by auto
    with ih a None show ?thesis
      by (simp add: resolve_def List.map_filter_simps)
  next
    case (Some t)
    have "addressee t = Some e \<longleftrightarrow> i = targetId"
      using here Some assms by auto
    with ih a Some show ?thesis
      by (simp add: resolve_def List.map_filter_simps)
  qed
qed

subsection \<open>The server's send\<close>

lemma server_send_ready:
  "s_connected (servers w s) \<Longrightarrow> s_clientId (servers w s) = Some i \<Longrightarrow> i \<noteq> [] \<Longrightarrow>
   server_send s m w = registry_send i m w"
  by (simp add: server_send_def)

lemma server_send_seq_ready:
  "s_connected (servers w s) \<Longrightarrow> s_clientId (servers w s) = Some i \<Longrightarrow> i \<noteq> [] \<Longrightarrow>
   server_send_seq s ms w = registry_send_seq (map (Pair i) ms) w"
proof (induction ms arbitrary: w)
  case Nil
  show ?case by simp
next
  case (Cons m ms)
  let ?w1 = "snd (registry_send i m w)"
  have "s_connected (servers ?w1 s)" "s_clientId (servers ?w1 s) = Some i"
    using Cons.prems by (simp_all add: registry_send_stores)
  from Cons.IH [OF this Cons.prems(3)] Cons.prems show ?case
    by (simp add: server_send_ready split_beta)
qed

subsection \<open>The registry table along a run of operations\<close>

lemma step_keeps_entry:
  "transportMap w i \<noteq> None \<Longrightarrow> \<not> closes_id i a w \<Longrightarrow> transportMap (step a w) i \<noteq> None"
  by (cases a)
     (auto simp add: new_LocalServerTransport_def new_LocalClientTransport_def register_def
       unregister_def server_start_def server_send_def server_close_def client_start_def
       client_send_def client_close_def server_fire_onclose_def client_fire_onclose_def
       server_setClientId_def registry_send_def setTimeout_def server_set_onmessage_def
       server_set_onclose_def client_set_onmessage_def client_set_onclose_def run_next_stores
       Let_def split: option.splits if_splits)

lemma steps_keep_entry:
  "transportMap w i \<noteq> None \<Longrightarrow> spares i ops w \<Longrightarrow> transportMap (steps ops w) i \<noteq> None"
proof (induction ops arbitrary: w)
  case Nil
  then show ?case by simp
next
  case (Cons a ops)
  from Cons.prems have spared: "\<not> closes_id i a w" and rest: "spares i ops (step a w)"
    by simp_all
  have "transportMap (step a w) i \<noteq> None"
    using Cons.prems(1) spared by (rule step_keeps_entry)
  from Cons.IH [OF this rest] show ?case by simp
qed

lemma step_keeps_absent:
  "transportMap w i = None \<Longrightarrow> \<not> mints i a \<Longrightarrow> transportMap (step a w) i = None"
  by (cases a)
     (auto simp add: new_LocalServerTransport_def new_LocalClientTransport_def register_def
       unregister_def server_start_def server_send_def server_close_def client_start_def
       client_send_def client_close_def server_fire_onclose_def client_fire_onclose_def
       server_setClientId_def registry_send_def setTimeout_def server_set_onmessage_def
       server_set_onclose_def client_set_onmessage_def client_set_onclose_def run_next_stores
       Let_def split: option.splits if_splits)

lemma steps_keep_absent:
  "transportMap w i = None \<Longrightarrow> list_all (\<lambda>a. \<not> mints i a) ops \<Longrightarrow>
   transportMap (steps ops w) i = None"
proof (induction ops arbitrary: w)
  case Nil
  then show ?case by simp
next
  case (Cons a ops)
  from Cons.prems have fresh: "\<not> mints i a" and rest: "list_all (\<lambda>a. \<not> mints i a) ops"
    by simp_all
  have "transportMap (step a w) i = None"
    using Cons.prems(1) fresh by (rule step_keeps_absent)
  from Cons.IH [OF this rest] show ?case by simp
qed

subsection \<open>The connected flag along a run of operations\<close>

lemma step_keeps_server_idle:
  "\<not> s_connected (servers w s) \<Longrightarrow> a \<noteq> ServerStart s \<Longrightarrow> \<not> s_connected (servers (step a w) s)"
  by (cases a)
     (auto simp add: new_LocalServerTransport_def new_LocalClientTransport_def register_def
       unregister_def server_start_def server_send_def server_close_def client_start_def
       client_send_def client_close_def server_fire_onclose_def client_fire_onclose_def
       server_setClientId_def registry_send_def setTimeout_def server_set_onmessage_def
       server_set_onclose_def client_set_onmessage_def client_set_onclose_def run_next_stores
       Let_def split: option.splits if_splits)

lemma step_keeps_client_idle:
  "\<not> c_connected (clients w c) \<Longrightarrow> a \<noteq> ClientStart c \<Longrightarrow> \<not> c_connected (clients (step a w) c)"
  by (cases a)
     (auto simp add: new_LocalServerTransport_def new_LocalClientTransport_def register_def
       unregister_def server_start_def server_send_def server_close_def client_start_def
       client_send_def client_close_def server_fire_onclose_def client_fire_onclose_def
       server_setClientId_def registry_send_def setTimeout_def server_set_onmessage_def
       server_set_onclose_def client_set_onmessage_def client_set_onclose_def run_next_stores
       Let_def split: option.splits if_splits)

lemma steps_keep_server_idle:
  "\<not> s_connected (servers w s) \<Longrightarrow> list_all (\<lambda>a. a \<noteq> ServerStart s) ops \<Longrightarrow>
   \<not> s_connected (servers (steps ops w) s)"
proof (induction ops arbitrary: w)
  case Nil
  then show ?case by simp
next
  case (Cons a ops)
  from Cons.prems have here: "a \<noteq> ServerStart s" and rest: "list_all (\<lambda>a. a \<noteq> ServerStart s) ops"
    by simp_all
  have "\<not> s_connected (servers (step a w) s)"
    using Cons.prems(1) here by (rule step_keeps_server_idle)
  from Cons.IH [OF this rest] show ?case by simp
qed

lemma steps_keep_client_idle:
  "\<not> c_connected (clients w c) \<Longrightarrow> list_all (\<lambda>a. a \<noteq> ClientStart c) ops \<Longrightarrow>
   \<not> c_connected (clients (steps ops w) c)"
proof (induction ops arbitrary: w)
  case Nil
  then show ?case by simp
next
  case (Cons a ops)
  from Cons.prems have here: "a \<noteq> ClientStart c" and rest: "list_all (\<lambda>a. a \<noteq> ClientStart c) ops"
    by simp_all
  have "\<not> c_connected (clients (step a w) c)"
    using Cons.prems(1) here by (rule step_keeps_client_idle)
  from Cons.IH [OF this rest] show ?case by simp
qed

section \<open>The handshake and the server's send\<close>

text \<open>
  Claim C1. Let a client hold a handle to a server, let both be not yet started, and
  let the client be registered under its own (non-empty, as every generated UUID is)
  session identifier, with an on-message observer \<open>f\<close> attached. Then both \<open>start()\<close>
  calls succeed, in either order and with the same resulting world \<open>w2\<close>; in \<open>w2\<close> the
  server's \<open>send(m)\<close> succeeds, calls no observer itself and queues one timer holding
  the client's registered object and \<open>m\<close>; and once the scheduler has run the pending
  timers, the trace is the one without the send followed by one call of the client's
  observer \<open>f\<close> with exactly \<open>m\<close>.
\<close>

theorem handshake_then_server_send:
  assumes "c_serverTransport (clients w c) = Some s"
    and "\<not> s_connected (servers w s)"
    and "\<not> c_connected (clients w c)"
    and "transportMap w (c_sessionId (clients w c)) = Some \<lparr>cb_onmessage = Some (ClientOnMessage c)\<rparr>"
    and "c_sessionId (clients w c) \<noteq> []"
    and "c_onmessage (clients w c) = Some f"
    and "w2 = snd (client_start c (snd (server_start s w)))"
  shows "fst (server_start s w) = Inr () \<and>
         fst (client_start c (snd (server_start s w))) = Inr () \<and>
         fst (client_start c w) = Inr () \<and>
         fst (server_start s (snd (client_start c w))) = Inr () \<and>
         snd (server_start s (snd (client_start c w))) = w2 \<and>
         fst (server_send s m w2) = Inr () \<and>
         trace (snd (server_send s m w2)) = trace w2 \<and>
         timers (snd (server_send s m w2))
           = timers w2 @ [(\<lparr>cb_onmessage = Some (ClientOnMessage c)\<rparr>, m)] \<and>
         trace (drain (snd (server_send s m w2)))
           = trace (drain w2) @ [OnMessage (ClientEnd c) f m]"
proof -
  let ?i = "c_sessionId (clients w c)"
  let ?t = "\<lparr>cb_onmessage = Some (ClientOnMessage c)\<rparr>"
  have starts: "fst (server_start s w) = Inr ()"
    "fst (client_start c (snd (server_start s w))) = Inr ()"
    "fst (client_start c w) = Inr ()"
    "fst (server_start s (snd (client_start c w))) = Inr ()"
    using assms(1-3)
    by (simp_all add: server_start_def client_start_def server_setClientId_def Let_def)
  have same: "snd (server_start s (snd (client_start c w))) = w2"
    unfolding assms(7) using assms(1-3)
    by (intro world.equality ext)
       (simp_all add: server_start_def client_start_def server_setClientId_def Let_def)
  have st: "s_connected (servers w2 s)" "s_clientId (servers w2 s) = Some ?i"
    "transportMap w2 ?i = Some ?t" "c_onmessage (clients w2 c) = Some f"
    using assms
    by (simp_all add: server_start_def client_start_def server_setClientId_def Let_def)
  have send: "server_send s m w2 = (Inr (), w2\<lparr>timers := timers w2 @ [(?t, m)]\<rparr>)"
    using st assms(5) by (simp add: server_send_ready registry_send_hit)
  have "c_onmessage (clients (drain w2) c) = Some f"
    using st(4) by (simp add: drain_stores)
  then have "trace (drain (snd (server_send s m w2)))
           = trace (drain w2) @ [OnMessage (ClientEnd c) f m]"
    by (simp add: send drain_append run_task_def)
  with starts same send show ?thesis by simp
qed

theorem handshake_then_server_send_witness:
  "c_serverTransport (clients wired_pair 0) = Some 0 \<and>
   \<not> s_connected (servers wired_pair 0) \<and> \<not> c_connected (clients wired_pair 0) \<and>
   transportMap wired_pair (c_sessionId (clients wired_pair 0))
     = Some \<lparr>cb_onmessage = Some (ClientOnMessage 0)\<rparr> \<and>
   c_sessionId (clients wired_pair 0) \<noteq> [] \<and>
   c_onmessage (clients wired_pair 0) = Some (Returns 2) \<and>
   fst (server_start 0 wired_pair) = Inr () \<and>
   fst (client_start 0 (snd (server_start 0 wired_pair))) = Inr () \<and>
   fst (server_send 0 ''pong'' started_pair) = Inr () \<and>
   trace (snd (server_send 0 ''pong'' started_pair)) = [] \<and>
   trace (drain (snd (server_send 0 ''pong'' started_pair))) = [OnMessage (ClientEnd 0) (Returns 2) ''pong'']"
proof -
  have h: "c_serverTransport (clients wired_pair 0) = Some 0"
    "\<not> s_connected (servers wired_pair 0)" "\<not> c_connected (clients wired_pair 0)"
    "transportMap wired_pair (c_sessionId (clients wired_pair 0))
       = Some \<lparr>cb_onmessage = Some (ClientOnMessage 0)\<rparr>"
    "c_sessionId (clients wired_pair 0) \<noteq> []"
    "c_onmessage (clients wired_pair 0) = Some (Returns 2)"
    by (simp_all add: scenario_defs)
  have w2: "started_pair = snd (client_start 0 (snd (server_start 0 wired_pair)))"
    by (simp only: started_pair_def)
  have quiet: "trace started_pair = []" "trace (drain started_pair) = []"
    by (simp_all add: scenario_defs drain_def)
  show ?thesis
    using h quiet handshake_then_server_send [OF h w2, where m = "''pong''"]
    by simp
qed

section \<open>Starting twice, and starting again after close\<close>

text \<open>
  Claim C2, as the code has it. \<open>start()\<close> throws "already started" whenever the
  endpoint is connected, and leaves the world as it was. The classes keep one boolean
  \<open>_connected\<close> and no separate closed state: after \<open>close()\<close> the endpoint is not
  connected, so \<open>start()\<close> on a server succeeds again and makes it connected again, and
  so does \<open>start()\<close> on a client that holds a server handle.
\<close>

theorem start_fails_only_while_connected:
  "(s_connected (servers w s) \<longrightarrow> server_start s w = (Inl ServerAlreadyStarted, w)) \<and>
   (c_connected (clients w c) \<longrightarrow> client_start c w = (Inl ClientAlreadyStarted, w)) \<and>
   fst (server_start s (snd (server_close s w))) = Inr () \<and>
   s_connected (servers (snd (server_start s (snd (server_close s w)))) s) \<and>
   (c_serverTransport (clients w c) \<noteq> None \<longrightarrow>
      fst (client_start c (snd (client_close c w))) = Inr () \<and>
      c_connected (clients (snd (client_start c (snd (client_close c w)))) c))"
  by (auto simp add: server_start_def client_start_def server_close_def client_close_def
      server_fire_onclose_def client_fire_onclose_def unregister_def server_setClientId_def Let_def
      split: option.splits)

theorem start_fails_only_while_connected_witness:
  "s_connected (servers started_pair 0) \<and> c_connected (clients started_pair 0) \<and>
   c_serverTransport (clients started_pair 0) \<noteq> None \<and>
   fst (server_start 0 started_pair) = Inl ServerAlreadyStarted \<and>
   fst (client_start 0 started_pair) = Inl ClientAlreadyStarted \<and>
   fst (server_start 0 (snd (server_close 0 started_pair))) = Inr () \<and>
   fst (client_start 0 (snd (client_close 0 started_pair))) = Inr ()"
proof -
  have a: "s_connected (servers started_pair 0)" "c_connected (clients started_pair 0)"
    "c_serverTransport (clients started_pair 0) \<noteq> None"
    by (simp_all add: scenario_defs)
  show ?thesis
    using a start_fails_only_while_connected [of started_pair 0 0]
    by simp
qed

text \<open>
  The claim as written says that a closed endpoint cannot be started again. On a
  server that was constructed, started and closed, a second \<open>start()\<close> returns
  normally and the server is connected once more.
\<close>

theorem restart_after_close_counterexample:
  "fst (server_start 0 lone_server) = Inr () \<and>
   fst (server_close 0 (snd (server_start 0 lone_server))) = Inr () \<and>
   fst (server_start 0 (snd (server_close 0 (snd (server_start 0 lone_server))))) = Inr () \<and>
   s_connected
     (servers (snd (server_start 0 (snd (server_close 0 (snd (server_start 0 lone_server)))))) 0)"
  by (simp add: scenario_defs)

section \<open>Order of delivery\<close>

text \<open>
  Claim C3. Let \<open>targetId\<close> be registered and let its registered object carry the
  closure of an endpoint \<open>e\<close> that has an on-message observer. Dispatching
  \<open>m1 \<dots> mk\<close> to \<open>targetId\<close> succeeds every time and appends the \<open>k\<close> timers to the
  queue in that order, and after the scheduler has run the pending timers \<open>e\<close> has
  received, after whatever was already pending for it, exactly \<open>m1 \<dots> mk\<close> in that
  order. The same holds when dispatches to other identifiers are interleaved
  (\<open>sends\<close> is any list of dispatches), provided none of the other identifiers
  dispatched to is registered to the closure of \<open>e\<close> as well: then \<open>e\<close> receives the
  messages of the dispatches to \<open>targetId\<close>, in the order of the dispatches.
\<close>

theorem fifo_per_target:
  assumes "transportMap w targetId = Some target"
    and "addressee target = Some e"
    and "attached w e"
  shows "registry_send_seq (map (Pair targetId) ms) w
           = (replicate (length ms) (Inr ()), w\<lparr>timers := timers w @ map (Pair target) ms\<rparr>) \<and>
         received e (trace (drain (snd (registry_send_seq (map (Pair targetId) ms) w))))
           = received e (trace (drain w)) @ ms \<and>
         (only_route w e targetId sends \<longrightarrow>
            received e (trace (drain (snd (registry_send_seq sends w))))
              = received e (trace (drain w)) @ map snd (filter (\<lambda>p. fst p = targetId) sends))"
proof (intro conjI impI)
  show burst: "registry_send_seq (map (Pair targetId) ms) w
           = (replicate (length ms) (Inr ()), w\<lparr>timers := timers w @ map (Pair target) ms\<rparr>)"
    using assms(1) by (rule registry_send_burst)
  show "received e (trace (drain (snd (registry_send_seq (map (Pair targetId) ms) w))))
           = received e (trace (drain w)) @ ms"
    by (simp add: burst burst_received_self [OF assms(2,3)])
next
  assume only: "only_route w e targetId sends"
  have att: "attached (drain w) e" using assms(3) by (simp add: attached_drain)
  show "received e (trace (drain (snd (registry_send_seq sends w))))
              = received e (trace (drain w)) @ map snd (filter (\<lambda>p. fst p = targetId) sends)"
    by (simp add: registry_send_seq_timers drain_append run_tasks_received [OF att]
        resolve_single_target [OF assms(1,2) only])
qed

theorem fifo_per_target_witness:
  "transportMap wired_pair ''srv-uuid'' = Some \<lparr>cb_onmessage = Some (ServerOnMessage 0)\<rparr> \<and>
   addressee \<lparr>cb_onmessage = Some (ServerOnMessage 0)\<rparr> = Some (ServerEnd 0) \<and>
   attached wired_pair (ServerEnd 0) \<and>
   only_route wired_pair (ServerEnd 0) ''srv-uuid''
     [(''srv-uuid'', ''a''), (''cli-uuid'', ''x''), (''srv-uuid'', ''b'')] \<and>
   fst (registry_send_seq (map (Pair ''srv-uuid'') [''a'', ''b'', ''c'']) wired_pair)
     = [Inr (), Inr (), Inr ()] \<and>
   received (ServerEnd 0)
     (trace (drain (snd (registry_send_seq (map (Pair ''srv-uuid'') [''a'', ''b'', ''c'']) wired_pair))))
     = [''a'', ''b'', ''c''] \<and>
   received (ServerEnd 0)
     (trace (drain (snd (registry_send_seq
        [(''srv-uuid'', ''a''), (''cli-uuid'', ''x''), (''srv-uuid'', ''b'')] wired_pair))))
     = [''a'', ''b'']"
proof -
  let ?t = "\<lparr>cb_onmessage = Some (ServerOnMessage 0)\<rparr>"
  let ?ms = "[''a'', ''b'', ''c'']"
  let ?sends = "[(''srv-uuid'', ''a''), (''cli-uuid'', ''x''), (''srv-uuid'', ''b'')]"
  have h: "transportMap wired_pair ''srv-uuid'' = Some ?t"
    "addressee ?t = Some (ServerEnd 0)"
    "attached wired_pair (ServerEnd 0)"
    by (simp_all add: scenario_defs addressee_def)
  have only: "only_route wired_pair (ServerEnd 0) ''srv-uuid'' ?sends"
    by (simp add: only_route_def scenario_defs addressee_def)
  have quiet: "received (ServerEnd 0) (trace (drain wired_pair)) = []"
    by (simp add: scenario_defs drain_def)
  note t = fifo_per_target [OF h, where ms = ?ms and sends = ?sends]
  have r1: "registry_send_seq (map (Pair ''srv-uuid'') ?ms) wired_pair
      = (replicate (length ?ms) (Inr ()),
         wired_pair\<lparr>timers := timers wired_pair @ map (Pair ?t) ?ms\<rparr>)"
    using t by blast
  have r2: "received (ServerEnd 0)
      (trace (drain (snd (registry_send_seq (map (Pair ''srv-uuid'') ?ms) wired_pair))))
      = received (ServerEnd 0) (trace (drain wired_pair)) @ ?ms"
    using t by blast
  have r3: "received (ServerEnd 0) (trace (drain (snd (registry_send_seq ?sends wired_pair))))
      = received (ServerEnd 0) (trace (drain wired_pair))
        @ map snd (filter (\<lambda>p. fst p = ''srv-uuid'') ?sends)"
    using t only by blast
  have s1: "fst (registry_send_seq (map (Pair ''srv-uuid'') ?ms) wired_pair)
      = [Inr (), Inr (), Inr ()]"
    unfolding r1 by simp
  have s2: "received (ServerEnd 0)
      (trace (drain (snd (registry_send_seq (map (Pair ''srv-uuid'') ?ms) wired_pair)))) = ?ms"
    unfolding r2 quiet by simp
  have s3: "received (ServerEnd 0) (trace (drain (snd (registry_send_seq ?sends wired_pair))))
      = [''a'', ''b'']"
    unfolding r3 quiet by simp
  from h only s1 s2 s3 show ?thesis by blast
qed

section \<open>Deferred delivery\<close>

text \<open>
  Claim C4. A dispatch to an identifier found in the table returns normally, calls
  no observer itself (the trace is unchanged) and appends one timer holding the
  object found and the message. When the scheduler has run the pending timers, that
  timer has run last, on the world the earlier timers left: it calls the handler \<open>h\<close>
  of the object found, and this also when the identifier was unregistered after the
  dispatch, because the timer holds the object and does not look it up again. So an
  endpoint \<open>e\<close> whose closure the object carries, and which has an on-message observer,
  receives \<open>m\<close> after what was pending for it, unregistered or not. A dispatch to an
  identifier absent from the table throws "not found" to the caller and changes
  nothing.
\<close>

theorem dispatch_deferred_not_dropped:
  "(transportMap w targetId = Some target \<longrightarrow>
      registry_send targetId m w = (Inr (), w\<lparr>timers := timers w @ [(target, m)]\<rparr>) \<and>
      trace (snd (registry_send targetId m w)) = trace w \<and>
      drain (snd (registry_send targetId m w)) = run_task (target, m) (drain w) \<and>
      drain (unregister targetId (snd (registry_send targetId m w)))
        = run_task (target, m) (drain (unregister targetId w)) \<and>
      (cb_onmessage target = Some h \<longrightarrow>
         drain (snd (registry_send targetId m w)) = invoke h m (drain w) \<and>
         drain (unregister targetId (snd (registry_send targetId m w)))
           = invoke h m (drain (unregister targetId w))) \<and>
      (addressee target = Some e \<and> attached w e \<longrightarrow>
         received e (trace (drain (snd (registry_send targetId m w))))
           = received e (trace (drain w)) @ [m] \<and>
         received e (trace (drain (unregister targetId (snd (registry_send targetId m w)))))
           = received e (trace (drain (unregister targetId w))) @ [m])) \<and>
   (transportMap w targetId = None \<longrightarrow>
      registry_send targetId m w = (Inl (TransportNotFound targetId), w))"
proof (intro conjI impI)
  assume hit: "transportMap w targetId = Some target"
  then have send: "registry_send targetId m w = (Inr (), setTimeout (target, m) w)"
    by (simp add: registry_send_def)
  show "registry_send targetId m w = (Inr (), w\<lparr>timers := timers w @ [(target, m)]\<rparr>)"
    using hit by (rule registry_send_hit)
  show "trace (snd (registry_send targetId m w)) = trace w"
    by (simp add: send setTimeout_def)
  show later: "drain (snd (registry_send targetId m w)) = run_task (target, m) (drain w)"
    by (simp add: send drain_setTimeout)
  show gone: "drain (unregister targetId (snd (registry_send targetId m w)))
        = run_task (target, m) (drain (unregister targetId w))"
    by (simp add: send unregister_setTimeout drain_setTimeout)
  {
    assume h: "cb_onmessage target = Some h"
    show "drain (snd (registry_send targetId m w)) = invoke h m (drain w)"
      by (simp add: later run_task_def h)
    show "drain (unregister targetId (snd (registry_send targetId m w)))
           = invoke h m (drain (unregister targetId w))"
      by (simp add: gone run_task_def h)
  }
  assume e: "addressee target = Some e \<and> attached w e"
  then have "attached (drain w) e" by (simp add: attached_drain)
  with e show "received e (trace (drain (snd (registry_send targetId m w))))
           = received e (trace (drain w)) @ [m]"
    by (simp add: later run_task_received)
  have "attached (unregister targetId w) e"
    using e by (cases e) (simp_all add: unregister_def)
  then have "attached (drain (unregister targetId w)) e" by (simp add: attached_drain)
  with e show "received e (trace (drain (unregister targetId (snd (registry_send targetId m w)))))
           = received e (trace (drain (unregister targetId w))) @ [m]"
    by (simp add: gone run_task_received)
next
  assume "transportMap w targetId = None"
  then show "registry_send targetId m w = (Inl (TransportNotFound targetId), w)"
    by (rule registry_send_miss)
qed

theorem dispatch_deferred_not_dropped_witness:
  "transportMap wired_pair ''cli-uuid'' = Some \<lparr>cb_onmessage = Some (ClientOnMessage 0)\<rparr> \<and>
   transportMap wired_pair ''nobody'' = None \<and>
   cb_onmessage \<lparr>cb_onmessage = Some (ClientOnMessage 0)\<rparr> = Some (ClientOnMessage 0) \<and>
   addressee \<lparr>cb_onmessage = Some (ClientOnMessage 0)\<rparr> = Some (ClientEnd 0) \<and>
   attached wired_pair (ClientEnd 0) \<and>
   fst (registry_send ''cli-uuid'' ''hello'' wired_pair) = Inr () \<and>
   trace (snd (registry_send ''cli-uuid'' ''hello'' wired_pair)) = [] \<and>
   drain (unregister ''cli-uuid'' (snd (registry_send ''cli-uuid'' ''hello'' wired_pair)))
     = invoke (ClientOnMessage 0) ''hello'' (drain (unregister ''cli-uuid'' wired_pair)) \<and>
   received (ClientEnd 0)
     (trace (drain (unregister ''cli-uuid'' (snd (registry_send ''cli-uuid'' ''hello'' wired_pair)))))
     = [''hello''] \<and>
   registry_send ''nobody'' ''hello'' wired_pair = (Inl (TransportNotFound ''nobody''), wired_pair)"
proof -
  let ?t = "\<lparr>cb_onmessage = Some (ClientOnMessage 0)\<rparr>"
  have h: "transportMap wired_pair ''cli-uuid'' = Some ?t"
    "transportMap wired_pair ''nobody'' = None"
    "cb_onmessage ?t = Some (ClientOnMessage 0)"
    "addressee ?t = Some (ClientEnd 0)"
    "attached wired_pair (ClientEnd 0)"
    by (simp_all add: scenario_defs addressee_def)
  have quiet: "trace wired_pair = []" "trace (drain (unregister ''cli-uuid'' wired_pair)) = []"
    by (simp_all add: scenario_defs drain_def)
  note hit = dispatch_deferred_not_dropped [where w = wired_pair and targetId = "''cli-uuid''"
      and target = ?t and m = "''hello''" and e = "ClientEnd 0" and h = "ClientOnMessage 0"]
  note miss = dispatch_deferred_not_dropped [where w = wired_pair and targetId = "''nobody''"
      and target = ?t and m = "''hello''" and e = "ClientEnd 0" and h = "ClientOnMessage 0"]
  have r1: "registry_send ''cli-uuid'' ''hello'' wired_pair
      = (Inr (), wired_pair\<lparr>timers := timers wired_pair @ [(?t, ''hello'')]\<rparr>)"
    using hit h by blast
  have r2: "trace (snd (registry_send ''cli-uuid'' ''hello'' wired_pair)) = trace wired_pair"
    using hit h by blast
  have r3: "received (ClientEnd 0)
     (trace (drain (unregister ''cli-uuid'' (snd (registry_send ''cli-uuid'' ''hello'' wired_pair)))))
     = received (ClientEnd 0) (trace (drain (unregister ''cli-uuid'' wired_pair))) @ [''hello'']"
    using hit h by blast
  have r4: "registry_send ''nobody'' ''hello'' wired_pair
      = (Inl (TransportNotFound ''nobody''), wired_pair)"
    using miss h by blast
  have r5: "drain (unregister ''cli-uuid'' (snd (registry_send ''cli-uuid'' ''hello'' wired_pair)))
     = invoke (ClientOnMessage 0) ''hello'' (drain (unregister ''cli-uuid'' wired_pair))"
    using hit h by blast
  have s1: "fst (registry_send ''cli-uuid'' ''hello'' wired_pair) = Inr ()"
    by (simp only: r1 fst_conv)
  have s2: "trace (snd (registry_send ''cli-uuid'' ''hello'' wired_pair)) = []"
    by (simp only: r2 quiet)
  have s3: "received (ClientEnd 0)
     (trace (drain (unregister ''cli-uuid'' (snd (registry_send ''cli-uuid'' ''hello'' wired_pair)))))
     = [''hello'']"
    by (simp only: r3 quiet received.simps append_Nil)
  from h s1 s2 s3 r4 r5 show ?thesis by blast
qed

section \<open>Sending before the endpoint is started\<close>

text \<open>
  Claim C5. On either endpoint, \<open>send(m)\<close> while the endpoint is not connected (before
  \<open>start()\<close> has succeeded) throws "Not connected" and leaves the whole world as it
  was: nothing reaches the registry, no timer is queued and no observer is called.
  An endpoint that is not connected stays so along any run of operations in which
  \<open>start()\<close> is not called on it, and every endpoint is not connected as its
  constructor leaves it.
\<close>

theorem send_before_start_fails:
  "(\<not> s_connected (servers w s) \<longrightarrow> server_send s m w = (Inl NotConnected, w)) \<and>
   (\<not> c_connected (clients w c) \<longrightarrow> client_send c m w = (Inl NotConnected, w)) \<and>
   (\<not> s_connected (servers w s) \<and> list_all (\<lambda>a. a \<noteq> ServerStart s) ops \<longrightarrow>
      server_send s m (steps ops w) = (Inl NotConnected, steps ops w)) \<and>
   (\<not> c_connected (clients w c) \<and> list_all (\<lambda>a. a \<noteq> ClientStart c) ops \<longrightarrow>
      client_send c m (steps ops w) = (Inl NotConnected, steps ops w)) \<and>
   server_send (fst (new_LocalServerTransport ident uuid w)) m
       (snd (new_LocalServerTransport ident uuid w))
     = (Inl NotConnected, snd (new_LocalServerTransport ident uuid w)) \<and>
   client_send (fst (new_LocalClientTransport srv uuid w)) m
       (snd (new_LocalClientTransport srv uuid w))
     = (Inl NotConnected, snd (new_LocalClientTransport srv uuid w))"
  by (simp add: server_send_def client_send_def new_LocalServerTransport_def
      new_LocalClientTransport_def register_def Let_def steps_keep_server_idle
      steps_keep_client_idle)

theorem send_before_start_fails_witness:
  "\<not> s_connected (servers wired_pair 0) \<and>
   \<not> c_connected (clients wired_pair 0) \<and>
   list_all (\<lambda>a. a \<noteq> ServerStart 0) [ClientStart 0, ClientSend 0 ''x'', Turn :: string op] \<and>
   list_all (\<lambda>a. a \<noteq> ClientStart 0) [ServerStart 0, ServerSetOnClose 0 (Returns 5), Turn :: string op] \<and>
   server_send 0 ''ping'' wired_pair = (Inl NotConnected, wired_pair) \<and>
   client_send 0 ''ping'' wired_pair = (Inl NotConnected, wired_pair) \<and>
   fst (server_send 0 ''ping'' (steps [ClientStart 0, ClientSend 0 ''x'', Turn] wired_pair))
     = Inl NotConnected \<and>
   fst (client_send 0 ''ping'' (steps [ServerStart 0, ServerSetOnClose 0 (Returns 5), Turn] wired_pair))
     = Inl NotConnected"
proof -
  let ?ops1 = "[ClientStart 0, ClientSend 0 ''x'', Turn :: string op]"
  let ?ops2 = "[ServerStart 0, ServerSetOnClose 0 (Returns 5), Turn :: string op]"
  have a: "\<not> s_connected (servers wired_pair 0)" "\<not> c_connected (clients wired_pair 0)"
    by (simp_all add: scenario_defs)
  have l: "list_all (\<lambda>a. a \<noteq> ServerStart 0) ?ops1" "list_all (\<lambda>a. a \<noteq> ClientStart 0) ?ops2"
    by simp_all
  note t1 = send_before_start_fails [where w = wired_pair and s = 0 and c = 0
      and m = "''ping''" and ops = ?ops1]
  note t2 = send_before_start_fails [where w = wired_pair and s = 0 and c = 0
      and m = "''ping''" and ops = ?ops2]
  have r1: "server_send 0 ''ping'' wired_pair = (Inl NotConnected, wired_pair)"
    using t1 a by blast
  have r2: "client_send 0 ''ping'' wired_pair = (Inl NotConnected, wired_pair)"
    using t1 a by blast
  have r3: "server_send 0 ''ping'' (steps ?ops1 wired_pair)
      = (Inl NotConnected, steps ?ops1 wired_pair)"
    using t1 a l by blast
  have r4: "client_send 0 ''ping'' (steps ?ops2 wired_pair)
      = (Inl NotConnected, steps ?ops2 wired_pair)"
    using t2 a l by blast
  have s3: "fst (server_send 0 ''ping'' (steps ?ops1 wired_pair)) = Inl NotConnected"
    by (simp only: r3 fst_conv)
  have s4: "fst (client_send 0 ''ping'' (steps ?ops2 wired_pair)) = Inl NotConnected"
    by (simp only: r4 fst_conv)
  from a l r1 r2 s3 s4 show ?thesis by blast
qed

section \<open>Closing more than once\<close>

text \<open>
  Claim C6, as the code has it. On an endpoint that is connected and has a close
  observer, calling \<open>close()\<close> \<open>N \<ge> 1\<close> times leaves the world the first call leaves,
  so the later calls change nothing, and they all return normally; the first call
  adds exactly one call of the close observer to the trace, and it returns normally
  unless that observer throws, in which case what the observer threw leaves the
  call. With an observer that returns, all \<open>N\<close> calls return normally. On an endpoint
  that is not connected, so also on one that was never started, every \<open>close()\<close>
  returns normally and changes nothing: the observer is not called at all.
\<close>

theorem close_fires_once_when_connected:
  "(s_connected (servers w s) \<and> s_onclose (servers w s) = Some f \<longrightarrow>
      server_closes (Suc n) s w
        = (fst (server_close s w) # replicate n (Inr ()), snd (server_close s w)) \<and>
      trace (snd (server_close s w)) = trace w @ [OnClose (ServerEnd s) f] \<and>
      fst (server_close s w) = (if throws f then Inl (ObserverError f) else Inr ()) \<and>
      (\<not> throws f \<longrightarrow>
         server_closes (Suc n) s w = (replicate (Suc n) (Inr ()), snd (server_close s w)))) \<and>
   (c_connected (clients w c) \<and> c_onclose (clients w c) = Some g \<longrightarrow>
      client_closes (Suc n) c w
        = (fst (client_close c w) # replicate n (Inr ()), snd (client_close c w)) \<and>
      trace (snd (client_close c w)) = trace w @ [OnClose (ClientEnd c) g] \<and>
      fst (client_close c w) = (if throws g then Inl (ObserverError g) else Inr ()) \<and>
      (\<not> throws g \<longrightarrow>
         client_closes (Suc n) c w = (replicate (Suc n) (Inr ()), snd (client_close c w)))) \<and>
   (\<not> s_connected (servers w s) \<longrightarrow> server_closes n s w = (replicate n (Inr ()), w)) \<and>
   (\<not> c_connected (clients w c) \<longrightarrow> client_closes n c w = (replicate n (Inr ()), w))"
proof (intro conjI impI)
  assume h: "s_connected (servers w s) \<and> s_onclose (servers w s) = Some f"
  show all: "server_closes (Suc n) s w
        = (fst (server_close s w) # replicate n (Inr ()), snd (server_close s w))"
    by (simp add: server_closes_idle [OF server_close_disconnects] split_beta)
  show "trace (snd (server_close s w)) = trace w @ [OnClose (ServerEnd s) f]"
    using h by (simp add: server_close_def server_fire_onclose_def unregister_def Let_def)
  show first: "fst (server_close s w) = (if throws f then Inl (ObserverError f) else Inr ())"
    using h by (simp add: server_close_def server_fire_onclose_def unregister_def Let_def)
  assume "\<not> throws f"
  then show "server_closes (Suc n) s w = (replicate (Suc n) (Inr ()), snd (server_close s w))"
    unfolding all first by simp
next
  assume h: "c_connected (clients w c) \<and> c_onclose (clients w c) = Some g"
  show all: "client_closes (Suc n) c w
        = (fst (client_close c w) # replicate n (Inr ()), snd (client_close c w))"
    by (simp add: client_closes_idle [OF client_close_disconnects] split_beta)
  show "trace (snd (client_close c w)) = trace w @ [OnClose (ClientEnd c) g]"
    using h by (simp add: client_close_def client_fire_onclose_def unregister_def Let_def)
  show first: "fst (client_close c w) = (if throws g then Inl (ObserverError g) else Inr ())"
    using h by (simp add: client_close_def client_fire_onclose_def unregister_def Let_def)
  assume "\<not> throws g"
  then show "client_closes (Suc n) c w = (replicate (Suc n) (Inr ()), snd (client_close c w))"
    unfolding all first by simp
next
  assume "\<not> s_connected (servers w s)"
  then show "server_closes n s w = (replicate n (Inr ()), w)" by (rule server_closes_idle)
next
  assume "\<not> c_connected (clients w c)"
  then show "client_closes n c w = (replicate n (Inr ()), w)" by (rule client_closes_idle)
qed

theorem close_fires_once_when_connected_witness:
  "s_connected (servers started_pair 0) \<and>
   s_onclose (servers started_pair 0) = Some (Returns 1) \<and> \<not> throws (Returns 1) \<and>
   c_connected (clients started_pair 0) \<and>
   c_onclose (clients started_pair 0) = Some (Returns 3) \<and> \<not> throws (Returns 3) \<and>
   s_connected (servers brittle_pair 0) \<and> s_onclose (servers brittle_pair 0) = Some (Throws 6) \<and>
   c_connected (clients brittle_pair 0) \<and> c_onclose (clients brittle_pair 0) = Some (Throws 7) \<and>
   \<not> s_connected (servers wired_pair 0) \<and> \<not> c_connected (clients wired_pair 0) \<and>
   fst (server_closes (Suc (Suc (Suc 0))) 0 started_pair) = [Inr (), Inr (), Inr ()] \<and>
   trace (snd (server_closes (Suc (Suc (Suc 0))) 0 started_pair))
     = [OnClose (ServerEnd 0) (Returns 1)] \<and>
   fst (client_closes (Suc (Suc 0)) 0 started_pair) = [Inr (), Inr ()] \<and>
   trace (snd (client_closes (Suc (Suc 0)) 0 started_pair))
     = [OnClose (ClientEnd 0) (Returns 3)] \<and>
   fst (server_closes (Suc (Suc 0)) 0 brittle_pair) = [Inl (ObserverError (Throws 6)), Inr ()] \<and>
   trace (snd (server_closes (Suc (Suc 0)) 0 brittle_pair))
     = [OnClose (ServerEnd 0) (Throws 6)] \<and>
   fst (client_closes (Suc (Suc 0)) 0 brittle_pair) = [Inl (ObserverError (Throws 7)), Inr ()] \<and>
   trace (snd (client_closes (Suc (Suc 0)) 0 brittle_pair))
     = [OnClose (ClientEnd 0) (Throws 7)] \<and>
   server_closes (Suc (Suc 0)) 0 wired_pair = ([Inr (), Inr ()], wired_pair) \<and>
   client_closes (Suc (Suc 0)) 0 wired_pair = ([Inr (), Inr ()], wired_pair)"
proof -
  have a: "s_connected (servers started_pair 0)"
    "s_onclose (servers started_pair 0) = Some (Returns 1)" "\<not> throws (Returns 1)"
    "c_connected (clients started_pair 0)"
    "c_onclose (clients started_pair 0) = Some (Returns 3)" "\<not> throws (Returns 3)"
    by (simp_all add: scenario_defs)
  have b: "s_connected (servers brittle_pair 0)"
    "s_onclose (servers brittle_pair 0) = Some (Throws 6)"
    "c_connected (clients brittle_pair 0)"
    "c_onclose (clients brittle_pair 0) = Some (Throws 7)"
    by (simp_all add: scenario_defs)
  have c: "\<not> s_connected (servers wired_pair 0)" "\<not> c_connected (clients wired_pair 0)"
    by (simp_all add: scenario_defs)
  have quiet: "trace started_pair = []" "trace brittle_pair = []"
    by (simp_all add: scenario_defs)
  note t3 = close_fires_once_when_connected [where w = started_pair and s = 0 and c = 0
      and f = "Returns 1" and g = "Returns 3" and n = "Suc (Suc 0)"]
  note t2 = close_fires_once_when_connected [where w = started_pair and s = 0 and c = 0
      and f = "Returns 1" and g = "Returns 3" and n = "Suc 0"]
  note u2 = close_fires_once_when_connected [where w = brittle_pair and s = 0 and c = 0
      and f = "Throws 6" and g = "Throws 7" and n = "Suc 0"]
  note v2 = close_fires_once_when_connected [where w = wired_pair and s = 0 and c = 0
      and f = "Returns 1" and g = "Returns 3" and n = "Suc (Suc 0)"]
  have r1: "server_closes (Suc (Suc (Suc 0))) 0 started_pair
      = (replicate (Suc (Suc (Suc 0))) (Inr ()), snd (server_close 0 started_pair))"
    using t3 a by blast
  have r2: "trace (snd (server_close 0 started_pair))
      = trace started_pair @ [OnClose (ServerEnd 0) (Returns 1)]"
    using t3 a by blast
  have r3: "client_closes (Suc (Suc 0)) 0 started_pair
      = (replicate (Suc (Suc 0)) (Inr ()), snd (client_close 0 started_pair))"
    using t2 a by blast
  have r4: "trace (snd (client_close 0 started_pair))
      = trace started_pair @ [OnClose (ClientEnd 0) (Returns 3)]"
    using t2 a by blast
  have r5: "server_closes (Suc (Suc 0)) 0 brittle_pair
      = (fst (server_close 0 brittle_pair) # replicate (Suc 0) (Inr ()),
         snd (server_close 0 brittle_pair))"
    using u2 b by blast
  have r6: "fst (server_close 0 brittle_pair)
      = (if throws (Throws 6) then Inl (ObserverError (Throws 6)) else Inr ())"
    using u2 b by blast
  have r7: "trace (snd (server_close 0 brittle_pair))
      = trace brittle_pair @ [OnClose (ServerEnd 0) (Throws 6)]"
    using u2 b by blast
  have r8: "client_closes (Suc (Suc 0)) 0 brittle_pair
      = (fst (client_close 0 brittle_pair) # replicate (Suc 0) (Inr ()),
         snd (client_close 0 brittle_pair))"
    using u2 b by blast
  have r9: "fst (client_close 0 brittle_pair)
      = (if throws (Throws 7) then Inl (ObserverError (Throws 7)) else Inr ())"
    using u2 b by blast
  have r10: "trace (snd (client_close 0 brittle_pair))
      = trace brittle_pair @ [OnClose (ClientEnd 0) (Throws 7)]"
    using u2 b by blast
  have r11: "server_closes (Suc (Suc 0)) 0 wired_pair
      = (replicate (Suc (Suc 0)) (Inr ()), wired_pair)"
    using v2 c by blast
  have r12: "client_closes (Suc (Suc 0)) 0 wired_pair
      = (replicate (Suc (Suc 0)) (Inr ()), wired_pair)"
    using v2 c by blast
  have s1: "fst (server_closes (Suc (Suc (Suc 0))) 0 started_pair) = [Inr (), Inr (), Inr ()]"
    unfolding r1 by simp
  have s2: "trace (snd (server_closes (Suc (Suc (Suc 0))) 0 started_pair))
      = [OnClose (ServerEnd 0) (Returns 1)]"
    unfolding r1 snd_conv r2 quiet by simp
  have s3: "fst (client_closes (Suc (Suc 0)) 0 started_pair) = [Inr (), Inr ()]"
    unfolding r3 by simp
  have s4: "trace (snd (client_closes (Suc (Suc 0)) 0 started_pair))
      = [OnClose (ClientEnd 0) (Returns 3)]"
    unfolding r3 snd_conv r4 quiet by simp
  have s5: "fst (server_closes (Suc (Suc 0)) 0 brittle_pair)
      = [Inl (ObserverError (Throws 6)), Inr ()]"
    unfolding r5 fst_conv r6 by simp
  have s6: "trace (snd (server_closes (Suc (Suc 0)) 0 brittle_pair))
      = [OnClose (ServerEnd 0) (Throws 6)]"
    unfolding r5 snd_conv r7 quiet by simp
  have s7: "fst (client_closes (Suc (Suc 0)) 0 brittle_pair)
      = [Inl (ObserverError (Throws 7)), Inr ()]"
    unfolding r8 fst_conv r9 by simp
  have s8: "trace (snd (client_closes (Suc (Suc 0)) 0 brittle_pair))
      = [OnClose (ClientEnd 0) (Throws 7)]"
    unfolding r8 snd_conv r10 quiet by simp
  have s11: "server_closes (Suc (Suc 0)) 0 wired_pair = ([Inr (), Inr ()], wired_pair)"
    unfolding r11 by simp
  have s12: "client_closes (Suc (Suc 0)) 0 wired_pair = ([Inr (), Inr ()], wired_pair)"
    unfolding r12 by simp
  from a b c s1 s2 s3 s4 s5 s6 s7 s8 s11 s12 show ?thesis by blast
qed

text \<open>
  The claim as written speaks of every endpoint. On a server that has a close
  observer but was never started, two calls of \<open>close()\<close> return normally and the
  observer is not called once but never.
\<close>

theorem close_unstarted_counterexample:
  "s_onclose (servers lone_server 0) = Some (Returns 1) \<and>
   fst (server_closes (Suc (Suc 0)) 0 lone_server) = [Inr (), Inr ()] \<and>
   trace (snd (server_closes (Suc (Suc 0)) 0 lone_server)) = []"
  by (simp add: scenario_defs)

section \<open>After close\<close>

text \<open>
  Claim C7. When a connected endpoint is closed, then in the world \<open>close()\<close> leaves
  behind a \<open>send(m)\<close> from that endpoint throws "Not connected", and a dispatch through
  the registry to that endpoint's session identifier throws "not found"; both leave
  the world as it is. The send keeps throwing "Not connected" after any run of
  operations in which \<open>start()\<close> is not called on that endpoint, and the dispatch keeps
  throwing "not found" after any run of operations that constructs no endpoint with
  that identifier.
\<close>

theorem closed_endpoint_unreachable:
  "(s_connected (servers w s) \<longrightarrow>
      server_send s m (snd (server_close s w)) = (Inl NotConnected, snd (server_close s w)) \<and>
      registry_send (s_sessionId (servers w s)) m (snd (server_close s w))
        = (Inl (TransportNotFound (s_sessionId (servers w s))), snd (server_close s w)) \<and>
      (list_all (\<lambda>a. a \<noteq> ServerStart s) ops \<longrightarrow>
         fst (server_send s m (steps ops (snd (server_close s w)))) = Inl NotConnected) \<and>
      (list_all (\<lambda>a. \<not> mints (s_sessionId (servers w s)) a) ops \<longrightarrow>
         fst (registry_send (s_sessionId (servers w s)) m (steps ops (snd (server_close s w))))
           = Inl (TransportNotFound (s_sessionId (servers w s))))) \<and>
   (c_connected (clients w c) \<longrightarrow>
      client_send c m (snd (client_close c w)) = (Inl NotConnected, snd (client_close c w)) \<and>
      registry_send (c_sessionId (clients w c)) m (snd (client_close c w))
        = (Inl (TransportNotFound (c_sessionId (clients w c))), snd (client_close c w)) \<and>
      (list_all (\<lambda>a. a \<noteq> ClientStart c) ops \<longrightarrow>
         fst (client_send c m (steps ops (snd (client_close c w)))) = Inl NotConnected) \<and>
      (list_all (\<lambda>a. \<not> mints (c_sessionId (clients w c)) a) ops \<longrightarrow>
         fst (registry_send (c_sessionId (clients w c)) m (steps ops (snd (client_close c w))))
           = Inl (TransportNotFound (c_sessionId (clients w c)))))"
proof (intro conjI impI)
  assume up: "s_connected (servers w s)"
  let ?w' = "snd (server_close s w)"
  let ?i = "s_sessionId (servers w s)"
  have gone: "transportMap ?w' ?i = None"
    using up
    by (simp add: server_close_def server_fire_onclose_def unregister_def Let_def
        split: option.splits)
  show "server_send s m ?w' = (Inl NotConnected, ?w')"
    using server_close_disconnects [of s w] by (simp add: server_send_def)
  show "registry_send ?i m ?w' = (Inl (TransportNotFound ?i), ?w')"
    using gone by (rule registry_send_miss)
  {
    assume "list_all (\<lambda>a. a \<noteq> ServerStart s) ops"
    with server_close_disconnects [of s w]
    have "\<not> s_connected (servers (steps ops ?w') s)" by (rule steps_keep_server_idle)
    then show "fst (server_send s m (steps ops ?w')) = Inl NotConnected"
      by (simp add: server_send_def)
  }
  assume "list_all (\<lambda>a. \<not> mints ?i a) ops"
  with gone have "transportMap (steps ops ?w') ?i = None" by (rule steps_keep_absent)
  then show "fst (registry_send ?i m (steps ops ?w')) = Inl (TransportNotFound ?i)"
    by (simp add: registry_send_miss)
next
  assume up: "c_connected (clients w c)"
  let ?w' = "snd (client_close c w)"
  let ?i = "c_sessionId (clients w c)"
  have gone: "transportMap ?w' ?i = None"
    using up
    by (simp add: client_close_def client_fire_onclose_def unregister_def Let_def
        split: option.splits)
  show "client_send c m ?w' = (Inl NotConnected, ?w')"
    using client_close_disconnects [of c w] by (simp add: client_send_def)
  show "registry_send ?i m ?w' = (Inl (TransportNotFound ?i), ?w')"
    using gone by (rule registry_send_miss)
  {
    assume "list_all (\<lambda>a. a \<noteq> ClientStart c) ops"
    with client_close_disconnects [of c w]
    have "\<not> c_connected (clients (steps ops ?w') c)" by (rule steps_keep_client_idle)
    then show "fst (client_send c m (steps ops ?w')) = Inl NotConnected"
      by (simp add: client_send_def)
  }
  assume "list_all (\<lambda>a. \<not> mints ?i a) ops"
  with gone have "transportMap (steps ops ?w') ?i = None" by (rule steps_keep_absent)
  then show "fst (registry_send ?i m (steps ops ?w')) = Inl (TransportNotFound ?i)"
    by (simp add: registry_send_miss)
qed

theorem closed_endpoint_unreachable_witness:
  "s_connected (servers started_pair 0) \<and> c_connected (clients started_pair 0) \<and>
   list_all (\<lambda>a. a \<noteq> ServerStart 0) [ClientSend 0 ''x'', Turn, ServerClose 0, ClientStart 0 :: string op] \<and>
   list_all (\<lambda>a. a \<noteq> ClientStart 0) [ClientSend 0 ''x'', Turn, ServerClose 0, ServerStart 0 :: string op] \<and>
   list_all (\<lambda>a. \<not> mints ''srv-uuid'' a) [ClientSend 0 ''x'', Turn, ServerClose 0, ClientStart 0 :: string op] \<and>
   list_all (\<lambda>a. \<not> mints ''cli-uuid'' a) [ClientSend 0 ''x'', Turn, ServerClose 0, ServerStart 0 :: string op] \<and>
   fst (server_send 0 ''ping'' (snd (server_close 0 started_pair))) = Inl NotConnected \<and>
   fst (registry_send ''srv-uuid'' ''ping'' (snd (server_close 0 started_pair)))
     = Inl (TransportNotFound ''srv-uuid'') \<and>
   fst (server_send 0 ''ping''
     (steps [ClientSend 0 ''x'', Turn, ServerClose 0, ClientStart 0] (snd (server_close 0 started_pair))))
     = Inl NotConnected \<and>
   fst (registry_send ''srv-uuid'' ''ping''
     (steps [ClientSend 0 ''x'', Turn, ServerClose 0, ClientStart 0] (snd (server_close 0 started_pair))))
     = Inl (TransportNotFound ''srv-uuid'') \<and>
   fst (client_send 0 ''ping'' (snd (client_close 0 started_pair))) = Inl NotConnected \<and>
   fst (registry_send ''cli-uuid'' ''ping'' (snd (client_close 0 started_pair)))
     = Inl (TransportNotFound ''cli-uuid'') \<and>
   fst (client_send 0 ''ping''
     (steps [ClientSend 0 ''x'', Turn, ServerClose 0, ServerStart 0] (snd (client_close 0 started_pair))))
     = Inl NotConnected \<and>
   fst (registry_send ''cli-uuid'' ''ping''
     (steps [ClientSend 0 ''x'', Turn, ServerClose 0, ServerStart 0] (snd (client_close 0 started_pair))))
     = Inl (TransportNotFound ''cli-uuid'')"
proof -
  let ?ops1 = "[ClientSend 0 ''x'', Turn, ServerClose 0, ClientStart 0 :: string op]"
  let ?ops2 = "[ClientSend 0 ''x'', Turn, ServerClose 0, ServerStart 0 :: string op]"
  have a: "s_connected (servers started_pair 0)" "c_connected (clients started_pair 0)"
    by (simp_all add: scenario_defs)
  have i: "s_sessionId (servers started_pair 0) = ''srv-uuid''"
    "c_sessionId (clients started_pair 0) = ''cli-uuid''"
    by (simp_all add: scenario_defs)
  have l: "list_all (\<lambda>a. a \<noteq> ServerStart 0) ?ops1" "list_all (\<lambda>a. a \<noteq> ClientStart 0) ?ops2"
    "list_all (\<lambda>a. \<not> mints ''srv-uuid'' a) ?ops1" "list_all (\<lambda>a. \<not> mints ''cli-uuid'' a) ?ops2"
    by simp_all
  note t1 = closed_endpoint_unreachable [where w = started_pair and s = 0 and c = 0
      and m = "''ping''" and ops = ?ops1, unfolded i]
  note t2 = closed_endpoint_unreachable [where w = started_pair and s = 0 and c = 0
      and m = "''ping''" and ops = ?ops2, unfolded i]
  have r1: "server_send 0 ''ping'' (snd (server_close 0 started_pair))
      = (Inl NotConnected, snd (server_close 0 started_pair))"
    using t1 a by blast
  have r2: "registry_send ''srv-uuid'' ''ping'' (snd (server_close 0 started_pair))
      = (Inl (TransportNotFound ''srv-uuid''), snd (server_close 0 started_pair))"
    using t1 a by blast
  have r3: "fst (server_send 0 ''ping'' (steps ?ops1 (snd (server_close 0 started_pair))))
      = Inl NotConnected"
    using t1 a l by blast
  have r4: "fst (registry_send ''srv-uuid'' ''ping'' (steps ?ops1 (snd (server_close 0 started_pair))))
      = Inl (TransportNotFound ''srv-uuid'')"
    using t1 a l by blast
  have r5: "client_send 0 ''ping'' (snd (client_close 0 started_pair))
      = (Inl NotConnected, snd (client_close 0 started_pair))"
    using t2 a by blast
  have r6: "registry_send ''cli-uuid'' ''ping'' (snd (client_close 0 started_pair))
      = (Inl (TransportNotFound ''cli-uuid''), snd (client_close 0 started_pair))"
    using t2 a by blast
  have r7: "fst (client_send 0 ''ping'' (steps ?ops2 (snd (client_close 0 started_pair))))
      = Inl NotConnected"
    using t2 a l by blast
  have r8: "fst (registry_send ''cli-uuid'' ''ping'' (steps ?ops2 (snd (client_close 0 started_pair))))
      = Inl (TransportNotFound ''cli-uuid'')"
    using t2 a l by blast
  have s1: "fst (server_send 0 ''ping'' (snd (server_close 0 started_pair))) = Inl NotConnected"
    by (simp only: r1 fst_conv)
  have s2: "fst (registry_send ''srv-uuid'' ''ping'' (snd (server_close 0 started_pair)))
      = Inl (TransportNotFound ''srv-uuid'')"
    by (simp only: r2 fst_conv)
  have s5: "fst (client_send 0 ''ping'' (snd (client_close 0 started_pair))) = Inl NotConnected"
    by (simp only: r5 fst_conv)
  have s6: "fst (registry_send ''cli-uuid'' ''ping'' (snd (client_close 0 started_pair)))
      = Inl (TransportNotFound ''cli-uuid'')"
    by (simp only: r6 fst_conv)
  from a l s1 s2 r3 r4 s5 s6 r7 r8 show ?thesis by blast
qed

section \<open>Failure without effect\<close>

text \<open>
  Claim C8, as the code has it. Whenever \<open>start()\<close> or \<open>send(m)\<close> throws, on the server
  or on the client, the world after the call is the world before it: the connection
  flags, the recorded client identifier, the registry table, the timer queue and the
  trace are untouched. \<open>close()\<close> has no error of its own: it throws exactly when the
  endpoint is connected and its close observer throws. The observer is called last,
  so then the endpoint was connected and is so no longer, its session identifier has
  been taken out of the registry table, and the other entries of the table, the
  recorded client identifier, the other store and the timer queue are as before.
\<close>

theorem failed_start_or_send_no_effect:
  "(isl (fst (server_start s w)) \<longrightarrow> snd (server_start s w) = w) \<and>
   (isl (fst (server_send s m w)) \<longrightarrow> snd (server_send s m w) = w) \<and>
   (isl (fst (client_start c w)) \<longrightarrow> snd (client_start c w) = w) \<and>
   (isl (fst (client_send c m w)) \<longrightarrow> snd (client_send c m w) = w) \<and>
   fst (server_close s w)
     = (if s_connected (servers w s)
        then (case s_onclose (servers w s) of
                None \<Rightarrow> Inr ()
              | Some f \<Rightarrow> if throws f then Inl (ObserverError f) else Inr ())
        else Inr ()) \<and>
   fst (client_close c w)
     = (if c_connected (clients w c)
        then (case c_onclose (clients w c) of
                None \<Rightarrow> Inr ()
              | Some g \<Rightarrow> if throws g then Inl (ObserverError g) else Inr ())
        else Inr ()) \<and>
   (isl (fst (server_close s w)) \<longrightarrow>
      s_connected (servers w s) \<and>
      \<not> s_connected (servers (snd (server_close s w)) s) \<and>
      transportMap (snd (server_close s w))
        = (transportMap w)(s_sessionId (servers w s) := None) \<and>
      s_clientId (servers (snd (server_close s w)) s) = s_clientId (servers w s) \<and>
      clients (snd (server_close s w)) = clients w \<and>
      timers (snd (server_close s w)) = timers w) \<and>
   (isl (fst (client_close c w)) \<longrightarrow>
      c_connected (clients w c) \<and>
      \<not> c_connected (clients (snd (client_close c w)) c) \<and>
      transportMap (snd (client_close c w))
        = (transportMap w)(c_sessionId (clients w c) := None) \<and>
      c_serverTransport (clients (snd (client_close c w)) c) = c_serverTransport (clients w c) \<and>
      servers (snd (client_close c w)) = servers w \<and>
      timers (snd (client_close c w)) = timers w)"
proof (intro conjI)
  show "isl (fst (server_start s w)) \<longrightarrow> snd (server_start s w) = w"
    by (simp add: server_start_def)
  show "isl (fst (server_send s m w)) \<longrightarrow> snd (server_send s m w) = w"
    by (simp add: server_send_def registry_send_def split: option.splits)
  show "isl (fst (client_start c w)) \<longrightarrow> snd (client_start c w) = w"
    by (simp add: client_start_def Let_def split: option.splits)
  show "isl (fst (client_send c m w)) \<longrightarrow> snd (client_send c m w) = w"
    by (simp add: client_send_def registry_send_def split: option.splits)
  show "fst (server_close s w)
     = (if s_connected (servers w s)
        then (case s_onclose (servers w s) of
                None \<Rightarrow> Inr ()
              | Some f \<Rightarrow> if throws f then Inl (ObserverError f) else Inr ())
        else Inr ())"
    by (simp add: server_close_def server_fire_onclose_def unregister_def Let_def
        split: option.splits)
  show "fst (client_close c w)
     = (if c_connected (clients w c)
        then (case c_onclose (clients w c) of
                None \<Rightarrow> Inr ()
              | Some g \<Rightarrow> if throws g then Inl (ObserverError g) else Inr ())
        else Inr ())"
    by (simp add: client_close_def client_fire_onclose_def unregister_def Let_def
        split: option.splits)
  show "isl (fst (server_close s w)) \<longrightarrow>
      s_connected (servers w s) \<and>
      \<not> s_connected (servers (snd (server_close s w)) s) \<and>
      transportMap (snd (server_close s w))
        = (transportMap w)(s_sessionId (servers w s) := None) \<and>
      s_clientId (servers (snd (server_close s w)) s) = s_clientId (servers w s) \<and>
      clients (snd (server_close s w)) = clients w \<and>
      timers (snd (server_close s w)) = timers w"
    by (simp add: server_close_def server_fire_onclose_def unregister_def Let_def
        split: option.splits)
  show "isl (fst (client_close c w)) \<longrightarrow>
      c_connected (clients w c) \<and>
      \<not> c_connected (clients (snd (client_close c w)) c) \<and>
      transportMap (snd (client_close c w))
        = (transportMap w)(c_sessionId (clients w c) := None) \<and>
      c_serverTransport (clients (snd (client_close c w)) c) = c_serverTransport (clients w c) \<and>
      servers (snd (client_close c w)) = servers w \<and>
      timers (snd (client_close c w)) = timers w"
    by (simp add: client_close_def client_fire_onclose_def unregister_def Let_def
        split: option.splits)
qed

theorem failed_start_or_send_no_effect_witness:
  "isl (fst (server_start 0 started_pair)) \<and> snd (server_start 0 started_pair) = started_pair \<and>
   isl (fst (client_start 0 started_pair)) \<and> snd (client_start 0 started_pair) = started_pair \<and>
   isl (fst (server_send 0 ''ping'' (snd (server_close 0 started_pair)))) \<and>
   snd (server_send 0 ''ping'' (snd (server_close 0 started_pair)))
     = snd (server_close 0 started_pair) \<and>
   isl (fst (client_send 0 ''ping'' (snd (server_close 0 started_pair)))) \<and>
   snd (client_send 0 ''ping'' (snd (server_close 0 started_pair)))
     = snd (server_close 0 started_pair) \<and>
   isl (fst (server_close 0 brittle_pair)) \<and> isl (fst (client_close 0 brittle_pair)) \<and>
   s_connected (servers brittle_pair 0) \<and>
   \<not> s_connected (servers (snd (server_close 0 brittle_pair)) 0) \<and>
   timers (snd (server_close 0 brittle_pair)) = timers brittle_pair \<and>
   c_connected (clients brittle_pair 0) \<and>
   \<not> c_connected (clients (snd (client_close 0 brittle_pair)) 0) \<and>
   timers (snd (client_close 0 brittle_pair)) = timers brittle_pair"
proof -
  let ?v = "snd (server_close 0 started_pair)"
  have a: "isl (fst (server_start 0 started_pair))" "isl (fst (client_start 0 started_pair))"
    by (simp_all add: scenario_defs)
  have b: "isl (fst (server_send 0 ''ping'' ?v))" "isl (fst (client_send 0 ''ping'' ?v))"
    by (simp_all add: scenario_defs)
  have c: "isl (fst (server_close 0 brittle_pair))" "isl (fst (client_close 0 brittle_pair))"
    by (simp_all add: scenario_defs)
  note t1 = failed_start_or_send_no_effect [where w = started_pair and s = 0 and c = 0
      and m = "''ping''"]
  note t2 = failed_start_or_send_no_effect [where w = ?v and s = 0 and c = 0
      and m = "''ping''"]
  note t3 = failed_start_or_send_no_effect [where w = brittle_pair and s = 0 and c = 0
      and m = "''ping''"]
  have r1: "snd (server_start 0 started_pair) = started_pair"
    "snd (client_start 0 started_pair) = started_pair"
    using t1 a by blast+
  have r2: "snd (server_send 0 ''ping'' ?v) = ?v" "snd (client_send 0 ''ping'' ?v) = ?v"
    using t2 b by blast+
  have r3: "s_connected (servers brittle_pair 0)"
    "\<not> s_connected (servers (snd (server_close 0 brittle_pair)) 0)"
    "timers (snd (server_close 0 brittle_pair)) = timers brittle_pair"
    using t3 c by blast+
  have r4: "c_connected (clients brittle_pair 0)"
    "\<not> c_connected (clients (snd (client_close 0 brittle_pair)) 0)"
    "timers (snd (client_close 0 brittle_pair)) = timers brittle_pair"
    using t3 c by blast+
  from a b c r1 r2 r3 r4 show ?thesis by blast
qed

text \<open>
  The claim as written includes \<open>close()\<close>. On a started server whose close observer
  throws, \<open>close()\<close> throws, and yet the server, connected before, is not connected
  after, and its identifier, in the registry table before, is not in it after.
\<close>

theorem close_observer_throws_counterexample:
  "isl (fst (server_close 0 brittle_pair)) \<and>
   s_connected (servers brittle_pair 0) \<and>
   \<not> s_connected (servers (snd (server_close 0 brittle_pair)) 0) \<and>
   transportMap brittle_pair ''srv-uuid'' \<noteq> None \<and>
   transportMap (snd (server_close 0 brittle_pair)) ''srv-uuid'' = None"
  by (simp add: scenario_defs)

section \<open>When an identifier is in the registry\<close>

text \<open>
  Claim C9, as the code has it. The constructor of either endpoint puts the session
  identifier into the table, bound to the endpoint's closure, while the endpoint is
  not connected. An identifier that is in the table stays in it along every run of
  operations in which no \<open>close()\<close> of a connected endpoint with that identifier
  occurs. \<open>close()\<close> of a connected endpoint removes the endpoint's identifier from the
  table; \<open>close()\<close> of an endpoint that is not connected changes nothing. An identifier
  that is not in the table stays out of it along every run of operations that
  constructs no endpoint with that identifier; \<open>start()\<close> in particular never
  registers.
\<close>

theorem registered_from_construction_to_close:
  "transportMap (snd (new_LocalServerTransport ident uuid w))
       (s_sessionId (servers (snd (new_LocalServerTransport ident uuid w))
          (fst (new_LocalServerTransport ident uuid w))))
     = Some \<lparr>cb_onmessage = Some (ServerOnMessage (fst (new_LocalServerTransport ident uuid w)))\<rparr> \<and>
   \<not> s_connected (servers (snd (new_LocalServerTransport ident uuid w))
          (fst (new_LocalServerTransport ident uuid w))) \<and>
   transportMap (snd (new_LocalClientTransport srv uuid w))
       (c_sessionId (clients (snd (new_LocalClientTransport srv uuid w))
          (fst (new_LocalClientTransport srv uuid w))))
     = Some \<lparr>cb_onmessage = Some (ClientOnMessage (fst (new_LocalClientTransport srv uuid w)))\<rparr> \<and>
   \<not> c_connected (clients (snd (new_LocalClientTransport srv uuid w))
          (fst (new_LocalClientTransport srv uuid w))) \<and>
   (transportMap w i \<noteq> None \<and> spares i ops w \<longrightarrow> transportMap (steps ops w) i \<noteq> None) \<and>
   (s_connected (servers w s) \<longrightarrow>
      transportMap (snd (server_close s w)) (s_sessionId (servers w s)) = None) \<and>
   (c_connected (clients w c) \<longrightarrow>
      transportMap (snd (client_close c w)) (c_sessionId (clients w c)) = None) \<and>
   (\<not> s_connected (servers w s) \<longrightarrow> server_close s w = (Inr (), w)) \<and>
   (\<not> c_connected (clients w c) \<longrightarrow> client_close c w = (Inr (), w)) \<and>
   (transportMap w i = None \<and> list_all (\<lambda>a. \<not> mints i a) ops \<longrightarrow>
      transportMap (steps ops w) i = None)"
proof (intro conjI impI)
  show "transportMap (snd (new_LocalServerTransport ident uuid w))
       (s_sessionId (servers (snd (new_LocalServerTransport ident uuid w))
          (fst (new_LocalServerTransport ident uuid w))))
     = Some \<lparr>cb_onmessage = Some (ServerOnMessage (fst (new_LocalServerTransport ident uuid w)))\<rparr>"
    by (simp add: new_LocalServerTransport_def register_def Let_def)
  show "\<not> s_connected (servers (snd (new_LocalServerTransport ident uuid w))
          (fst (new_LocalServerTransport ident uuid w)))"
    by (simp add: new_LocalServerTransport_def register_def Let_def)
  show "transportMap (snd (new_LocalClientTransport srv uuid w))
       (c_sessionId (clients (snd (new_LocalClientTransport srv uuid w))
          (fst (new_LocalClientTransport srv uuid w))))
     = Some \<lparr>cb_onmessage = Some (ClientOnMessage (fst (new_LocalClientTransport srv uuid w)))\<rparr>"
    by (simp add: new_LocalClientTransport_def register_def Let_def)
  show "\<not> c_connected (clients (snd (new_LocalClientTransport srv uuid w))
          (fst (new_LocalClientTransport srv uuid w)))"
    by (simp add: new_LocalClientTransport_def register_def Let_def)
next
  assume "transportMap w i \<noteq> None \<and> spares i ops w"
  then show "transportMap (steps ops w) i \<noteq> None"
    by (simp add: steps_keep_entry)
next
  assume "s_connected (servers w s)"
  then show "transportMap (snd (server_close s w)) (s_sessionId (servers w s)) = None"
    by (simp add: server_close_def server_fire_onclose_def unregister_def Let_def
        split: option.splits)
next
  assume "c_connected (clients w c)"
  then show "transportMap (snd (client_close c w)) (c_sessionId (clients w c)) = None"
    by (simp add: client_close_def client_fire_onclose_def unregister_def Let_def
        split: option.splits)
next
  assume "\<not> s_connected (servers w s)"
  then show "server_close s w = (Inr (), w)" by (rule server_close_idle)
next
  assume "\<not> c_connected (clients w c)"
  then show "client_close c w = (Inr (), w)" by (rule client_close_idle)
next
  assume "transportMap w i = None \<and> list_all (\<lambda>a. \<not> mints i a) ops"
  then show "transportMap (steps ops w) i = None"
    by (simp add: steps_keep_absent)
qed

theorem registered_from_construction_to_close_witness:
  "transportMap wired_pair ''srv-uuid'' \<noteq> None \<and>
   spares ''srv-uuid'' [ServerStart 0, ClientStart 0, ClientSend 0 ''ping'', Turn, ClientClose 0]
     wired_pair \<and>
   transportMap (steps [ServerStart 0, ClientStart 0, ClientSend 0 ''ping'', Turn, ClientClose 0]
     wired_pair) ''srv-uuid'' \<noteq> None \<and>
   s_connected (servers started_pair 0) \<and> c_connected (clients started_pair 0) \<and>
   transportMap (snd (server_close 0 started_pair)) ''srv-uuid'' = None \<and>
   transportMap (snd (client_close 0 started_pair)) ''cli-uuid'' = None \<and>
   \<not> s_connected (servers wired_pair 0) \<and> \<not> c_connected (clients wired_pair 0) \<and>
   server_close 0 wired_pair = (Inr (), wired_pair) \<and>
   client_close 0 wired_pair = (Inr (), wired_pair) \<and>
   list_all (\<lambda>a. \<not> mints ''srv-uuid'' a) [ServerStart 0, ServerSend 0 ''pong'', Turn :: string op] \<and>
   transportMap (steps [ServerStart 0, ServerSend 0 ''pong'', Turn]
     (snd (server_close 0 started_pair))) ''srv-uuid'' = None"
proof -
  have a: "transportMap wired_pair ''srv-uuid'' \<noteq> None"
    "spares ''srv-uuid'' [ServerStart 0, ClientStart 0, ClientSend 0 ''ping'', Turn, ClientClose 0]
       wired_pair"
    by (simp_all add: scenario_defs run_next_def run_task_def)
  have b: "s_connected (servers started_pair 0)" "c_connected (clients started_pair 0)"
    "s_sessionId (servers started_pair 0) = ''srv-uuid''"
    "c_sessionId (clients started_pair 0) = ''cli-uuid''"
    "\<not> s_connected (servers wired_pair 0)" "\<not> c_connected (clients wired_pair 0)"
    by (simp_all add: scenario_defs)
  have c: "transportMap (snd (server_close 0 started_pair)) ''srv-uuid'' = None"
    "list_all (\<lambda>a. \<not> mints ''srv-uuid'' a) [ServerStart 0, ServerSend 0 ''pong'', Turn :: string op]"
    by (simp_all add: scenario_defs)
  show ?thesis
    using a b c
      registered_from_construction_to_close [of None "''u''" wired_pair None "''srv-uuid''"
        "[ServerStart 0, ClientStart 0, ClientSend 0 ''ping'', Turn, ClientClose 0]" 0 0]
      registered_from_construction_to_close [of None "''u''" started_pair None "''srv-uuid''"
        "[]" 0 0]
      registered_from_construction_to_close [of None "''u''" "snd (server_close 0 started_pair)"
        None "''srv-uuid''" "[ServerStart 0, ServerSend 0 ''pong'', Turn]" 0 0]
    by simp
qed

text \<open>
  The claim as written has the identifier in the table exactly while the endpoint is
  connected. A server that was constructed and not yet started is not connected, and
  its identifier is in the table.
\<close>

theorem registered_before_start_counterexample:
  "s_sessionId (servers lone_server 0) = ''srv-uuid'' \<and>
   transportMap lone_server ''srv-uuid'' \<noteq> None \<and>
   \<not> s_connected (servers lone_server 0)"
  by (simp add: scenario_defs)

section \<open>Two clients on one server\<close>

text \<open>
  Claim C10. Let two different clients \<open>c1\<close> and \<open>c2\<close> hold a handle to the same server
  and be not yet started. After \<open>c1.start()\<close> and then \<open>c2.start()\<close>, which both succeed,
  the server's recorded client identifier is the one of \<open>c2\<close>. If the server is
  connected, every later run of server \<open>send\<close> calls is a run of dispatches to the
  identifier of \<open>c2\<close>; and if that identifier is registered to the closure of \<open>c2\<close>, all
  these sends succeed, their timers hold the registered object of \<open>c2\<close>, and when the
  scheduler has run the pending timers \<open>c1\<close> has received nothing beyond what was
  pending for it before, while \<open>c2\<close>, if it has an on-message observer, has received
  the messages in order. Exchanging the names \<open>c1\<close> and \<open>c2\<close> gives the other order.
\<close>

theorem later_handshake_wins:
  assumes "c1 \<noteq> c2"
    and "c_serverTransport (clients w c1) = Some s"
    and "c_serverTransport (clients w c2) = Some s"
    and "\<not> c_connected (clients w c1)"
    and "\<not> c_connected (clients w c2)"
    and "w2 = snd (client_start c2 (snd (client_start c1 w)))"
  shows "fst (client_start c1 w) = Inr () \<and>
         fst (client_start c2 (snd (client_start c1 w))) = Inr () \<and>
         s_clientId (servers w2 s) = Some (c_sessionId (clients w c2)) \<and>
         (s_connected (servers w s) \<and> c_sessionId (clients w c2) \<noteq> [] \<longrightarrow>
            server_send_seq s ms w2
              = registry_send_seq (map (Pair (c_sessionId (clients w c2))) ms) w2) \<and>
         (s_connected (servers w s) \<and> c_sessionId (clients w c2) \<noteq> [] \<and>
          transportMap w (c_sessionId (clients w c2))
            = Some \<lparr>cb_onmessage = Some (ClientOnMessage c2)\<rparr> \<longrightarrow>
            fst (server_send_seq s ms w2) = replicate (length ms) (Inr ()) \<and>
            timers (snd (server_send_seq s ms w2))
              = timers w2 @ map (Pair \<lparr>cb_onmessage = Some (ClientOnMessage c2)\<rparr>) ms \<and>
            received (ClientEnd c1) (trace (drain (snd (server_send_seq s ms w2))))
              = received (ClientEnd c1) (trace (drain w2)) \<and>
            (c_onmessage (clients w c2) \<noteq> None \<longrightarrow>
               received (ClientEnd c2) (trace (drain (snd (server_send_seq s ms w2))))
                 = received (ClientEnd c2) (trace (drain w2)) @ ms))"
proof -
  let ?i = "c_sessionId (clients w c2)"
  let ?t = "\<lparr>cb_onmessage = Some (ClientOnMessage c2)\<rparr>"
  have starts: "fst (client_start c1 w) = Inr ()"
    "fst (client_start c2 (snd (client_start c1 w))) = Inr ()"
    using assms(1-5) by (simp_all add: client_start_def server_setClientId_def Let_def)
  have st: "s_clientId (servers w2 s) = Some ?i"
    "s_connected (servers w2 s) = s_connected (servers w s)"
    "transportMap w2 = transportMap w"
    "c_onmessage (clients w2 c2) = c_onmessage (clients w c2)"
    using assms by (simp_all add: client_start_def server_setClientId_def Let_def)
  have seq: "s_connected (servers w s) \<and> ?i \<noteq> [] \<longrightarrow>
      server_send_seq s ms w2 = registry_send_seq (map (Pair ?i) ms) w2"
    using st by (simp add: server_send_seq_ready)
  have rest: "s_connected (servers w s) \<and> ?i \<noteq> [] \<and> transportMap w ?i = Some ?t \<longrightarrow>
      fst (server_send_seq s ms w2) = replicate (length ms) (Inr ()) \<and>
      timers (snd (server_send_seq s ms w2)) = timers w2 @ map (Pair ?t) ms \<and>
      received (ClientEnd c1) (trace (drain (snd (server_send_seq s ms w2))))
        = received (ClientEnd c1) (trace (drain w2)) \<and>
      (c_onmessage (clients w c2) \<noteq> None \<longrightarrow>
         received (ClientEnd c2) (trace (drain (snd (server_send_seq s ms w2))))
           = received (ClientEnd c2) (trace (drain w2)) @ ms)"
  proof (intro impI)
    assume h: "s_connected (servers w s) \<and> ?i \<noteq> [] \<and> transportMap w ?i = Some ?t"
    have hit: "transportMap w2 ?i = Some ?t" using h st by simp
    have burst: "server_send_seq s ms w2
        = (replicate (length ms) (Inr ()), w2\<lparr>timers := timers w2 @ map (Pair ?t) ms\<rparr>)"
      using seq h registry_send_burst [OF hit] by simp
    have other: "addressee ?t \<noteq> Some (ClientEnd c1)"
      using assms(1) by (simp add: addressee_def)
    have self: "addressee ?t = Some (ClientEnd c2)"
      by (simp add: addressee_def)
    have c1: "received (ClientEnd c1) (trace (drain (snd (server_send_seq s ms w2))))
              = received (ClientEnd c1) (trace (drain w2))"
      by (simp add: burst burst_received_other [OF other])
    have c2: "c_onmessage (clients w c2) \<noteq> None \<longrightarrow>
        received (ClientEnd c2) (trace (drain (snd (server_send_seq s ms w2))))
          = received (ClientEnd c2) (trace (drain w2)) @ ms"
    proof
      assume "c_onmessage (clients w c2) \<noteq> None"
      then have att: "attached w2 (ClientEnd c2)" using st by simp
      show "received (ClientEnd c2) (trace (drain (snd (server_send_seq s ms w2))))
          = received (ClientEnd c2) (trace (drain w2)) @ ms"
        by (simp add: burst burst_received_self [OF self att])
    qed
    from burst c1 c2
    show "fst (server_send_seq s ms w2) = replicate (length ms) (Inr ()) \<and>
      timers (snd (server_send_seq s ms w2)) = timers w2 @ map (Pair ?t) ms \<and>
      received (ClientEnd c1) (trace (drain (snd (server_send_seq s ms w2))))
        = received (ClientEnd c1) (trace (drain w2)) \<and>
      (c_onmessage (clients w c2) \<noteq> None \<longrightarrow>
         received (ClientEnd c2) (trace (drain (snd (server_send_seq s ms w2))))
           = received (ClientEnd c2) (trace (drain w2)) @ ms)"
      by simp
  qed
  from starts st(1) seq rest show ?thesis by blast
qed

theorem later_handshake_wins_witness:
  "(0::nat) \<noteq> 1 \<and>
   c_serverTransport (clients wired_trio 0) = Some 0 \<and>
   c_serverTransport (clients wired_trio 1) = Some 0 \<and>
   \<not> c_connected (clients wired_trio 0) \<and> \<not> c_connected (clients wired_trio 1) \<and>
   s_connected (servers wired_trio 0) \<and> c_sessionId (clients wired_trio 1) = ''cli2-uuid'' \<and>
   transportMap wired_trio ''cli2-uuid'' = Some \<lparr>cb_onmessage = Some (ClientOnMessage 1)\<rparr> \<and>
   c_onmessage (clients wired_trio 1) \<noteq> None \<and>
   s_clientId (servers (snd (client_start 1 (snd (client_start 0 wired_trio)))) 0)
     = Some ''cli2-uuid'' \<and>
   fst (server_send_seq 0 [''a'', ''b''] (snd (client_start 1 (snd (client_start 0 wired_trio)))))
     = [Inr (), Inr ()] \<and>
   received (ClientEnd 0) (trace (drain (snd (server_send_seq 0 [''a'', ''b'']
       (snd (client_start 1 (snd (client_start 0 wired_trio)))))))) = [] \<and>
   received (ClientEnd 1) (trace (drain (snd (server_send_seq 0 [''a'', ''b'']
       (snd (client_start 1 (snd (client_start 0 wired_trio)))))))) = [''a'', ''b'']"
proof -
  let ?w2 = "snd (client_start 1 (snd (client_start 0 wired_trio)))"
  let ?ms = "[''a'', ''b'']"
  have h: "(0::nat) \<noteq> 1"
    "c_serverTransport (clients wired_trio 0) = Some 0"
    "c_serverTransport (clients wired_trio 1) = Some 0"
    "\<not> c_connected (clients wired_trio 0)" "\<not> c_connected (clients wired_trio 1)"
    by (simp_all add: scenario_defs)
  have g: "s_connected (servers wired_trio 0)"
    "transportMap wired_trio ''cli2-uuid'' = Some \<lparr>cb_onmessage = Some (ClientOnMessage 1)\<rparr>"
    "c_onmessage (clients wired_trio 1) \<noteq> None"
    by (simp_all add: scenario_defs)
  have i: "c_sessionId (clients wired_trio 1) = ''cli2-uuid''"
    by (simp add: scenario_defs)
  have ne: "''cli2-uuid'' \<noteq> []"
    by simp
  have quiet: "received (ClientEnd 0) (trace (drain ?w2)) = []"
    "received (ClientEnd 1) (trace (drain ?w2)) = []"
    by (simp_all add: scenario_defs drain_def)
  note t = later_handshake_wins [OF h refl, where ms = ?ms, unfolded i]
  have r1: "s_clientId (servers ?w2 0) = Some ''cli2-uuid''"
    using t by blast
  have r2: "fst (server_send_seq 0 ?ms ?w2) = replicate (length ?ms) (Inr ())"
    using t g ne by blast
  have r3: "received (ClientEnd 0) (trace (drain (snd (server_send_seq 0 ?ms ?w2))))
      = received (ClientEnd 0) (trace (drain ?w2))"
    using t g ne by blast
  have r4: "received (ClientEnd 1) (trace (drain (snd (server_send_seq 0 ?ms ?w2))))
      = received (ClientEnd 1) (trace (drain ?w2)) @ ?ms"
    using t g ne by blast
  have s2: "fst (server_send_seq 0 ?ms ?w2) = [Inr (), Inr ()]"
    unfolding r2 by simp
  have s3: "received (ClientEnd 0) (trace (drain (snd (server_send_seq 0 ?ms ?w2)))) = []"
    unfolding r3 quiet by simp
  have s4: "received (ClientEnd 1) (trace (drain (snd (server_send_seq 0 ?ms ?w2)))) = ?ms"
    unfolding r4 quiet by simp
  from h g i r1 s2 s3 s4 show ?thesis by blast
qed

end
